theory Spec2Isabelle
  imports Main
begin

section \<open>The visitor counter of \<^verbatim>\<open>infra/lambda/lambda_function.py\<close>\<close>

text \<open>
  The module holds two functions: \<^verbatim>\<open>decimal_default\<close>, the hook handed to
  \<^verbatim>\<open>json.dumps\<close>, and \<^verbatim>\<open>lambda_handler\<close>, which reads the record
  \<^verbatim>\<open>visitor_count\<close> of a DynamoDB table, adds one to its count, writes the record
  back and answers with an API Gateway response. Everything the handler does to the outside
  (the two store calls, the three clock readings and the \<^verbatim>\<open>print\<close> of the error
  path) is explicit here: the outside is a value \<open>env\<close> read by one invocation and a value
  \<open>world\<close> threaded through it.

  A Python \<^verbatim>\<open>str\<close> is a \<open>string\<close>, so a character is a code point below 256.
\<close>

subsection \<open>Python values\<close>

text \<open>
  \<^verbatim>\<open>decimal.Decimal\<close>, finite values only (DynamoDB holds no NaN and no infinity):
  sign, coefficient and exponent as CPython keeps them; the value is
  \<open>(-1)^sign * coeff * 10^exponent\<close>.
\<close>

datatype decimal = Decimal (sign: bool) (coeff: nat) (exponent: int)

text \<open>
  A \<^verbatim>\<open>float\<close> is kept as the conversion that made it: \<open>Float_of d\<close> is
  \<^verbatim>\<open>float(d)\<close>, the binary64 number nearest to \<open>d\<close>. No arithmetic on floats occurs
  in the module.
\<close>

datatype pyfloat = Float_of decimal

datatype pyobj =
    PNone
  | PBool bool
  | PInt int
  | PFloat pyfloat
  | PStr string
  | PDecimal decimal
  | PList "pyobj list"
  | PDict "(string \<times> pyobj) list"

text \<open>
  The exceptions of the module. Only \<^verbatim>\<open>str(e)\<close> of an exception is ever observed.
  \<open>InvalidOperation\<close>, \<open>Rounded\<close>, \<open>Inexact\<close> and \<open>Overflow\<close> are the signals of
  the \<^verbatim>\<open>decimal\<close> module that a trapping context raises. \<open>Raised t\<close> is any other
  exception of class \<^verbatim>\<open>Exception\<close> raised by code outside the module (the store,
  the built-in \<^verbatim>\<open>int\<close>), \<open>t\<close> its text.
\<close>

datatype exn =
    KeyError string
  | TypeError
  | InvalidOperation
  | Rounded
  | Inexact
  | Overflow
  | Raised string

text \<open>
  \<^verbatim>\<open>str(e)\<close>. A \<^verbatim>\<open>KeyError\<close> prints the \<^verbatim>\<open>repr\<close> of its key, which for a
  key of letters and underscores (the only key looked up is \<^verbatim>\<open>count\<close>) is the key
  in single quotes; \<^verbatim>\<open>raise TypeError\<close> carries no argument, so its text is empty;
  a signal of \<^verbatim>\<open>decimal\<close> prints the list of the signals met.
\<close>

fun str_exn :: "exn \<Rightarrow> string" where
  "str_exn (KeyError k) = [CHR 0x27] @ k @ [CHR 0x27]"
| "str_exn TypeError = []"
| "str_exn InvalidOperation = ''[<class 'decimal.DivisionImpossible'>]''"
| "str_exn Rounded = ''[<class 'decimal.Rounded'>]''"
| "str_exn Inexact = ''[<class 'decimal.Inexact'>, <class 'decimal.Rounded'>]''"
| "str_exn Overflow =
     ''[<class 'decimal.Overflow'>, <class 'decimal.Inexact'>, <class 'decimal.Rounded'>]''"
| "str_exn (Raised t) = t"

subsection \<open>Decimal arithmetic\<close>

text \<open>\<^verbatim>\<open>str(n)\<close> of a natural number and of an integer.\<close>

definition digit_char :: "nat \<Rightarrow> char" where
  "digit_char d = ''0123456789'' ! d"

fun nat_digits :: "nat \<Rightarrow> string" where
  "nat_digits n = (if n < 10 then [digit_char n] else nat_digits (n div 10) @ [digit_char (n mod 10)])"

declare nat_digits.simps [simp del]

definition str_int :: "int \<Rightarrow> string" where
  "str_int i = (if i < 0 then CHR ''-'' # nat_digits (nat (- i)) else nat_digits (nat i))"

text \<open>\<^verbatim>\<open>int(d)\<close> of a Decimal: truncation towards zero.\<close>

definition int_of_decimal :: "decimal \<Rightarrow> int" where
  "int_of_decimal d =
     (let m = (if 0 \<le> exponent d then int (coeff d) * 10 ^ nat (exponent d)
               else int (coeff d) div 10 ^ nat (- exponent d))
      in if sign d then - m else m)"

text \<open>
  The Decimal that an \<^verbatim>\<open>int\<close> comes back as after boto3 has written it as a DynamoDB
  number and read it again: \<^verbatim>\<open>Decimal(str(n))\<close>.
\<close>

definition decimal_of_int :: "int \<Rightarrow> decimal" where
  "decimal_of_int n = Decimal (n < 0) (nat \<bar>n\<bar>) 0"

text \<open>
  \<^verbatim>\<open>d.adjusted()\<close>: the exponent of the most significant digit.
\<close>

definition adjusted :: "decimal \<Rightarrow> int" where
  "adjusted d = exponent d + int (length (nat_digits (coeff d))) - 1"

text \<open>
  \<^verbatim>\<open>d % 1\<close> in the default context (precision 28, \<^verbatim>\<open>InvalidOperation\<close> trapped),
  after \<^verbatim>\<open>Decimal._divide\<close>: a zero or a value below \<open>0.1\<close> is its own remainder; a
  quotient of more than 28 digits is \<^verbatim>\<open>DivisionImpossible\<close>. This is the remainder
  before its final rounding to the context.
\<close>

definition decimal_mod_one :: "decimal \<Rightarrow> exn + decimal" where
  "decimal_mod_one d =
     (let ideal_exp = min (exponent d) 0 in
      if coeff d = 0 \<or> adjusted d \<le> - 2 then Inr (Decimal (sign d) (coeff d) ideal_exp)
      else if adjusted d \<le> 28 then
        (let op1 = coeff d * 10 ^ nat (exponent d);
             op2 = 10 ^ nat (- exponent d);
             q = op1 div op2;
             r = op1 mod op2
         in if q < 10 ^ 28 then Inr (Decimal (sign d) r ideal_exp) else Inl InvalidOperation)
      else Inl InvalidOperation)"

text \<open>
  Whether the remainder is zero once rounded to the context (\<^verbatim>\<open>Decimal._fix\<close>, rounding
  half to even, \<^verbatim>\<open>Underflow\<close> not trapped), which is all that \<^verbatim>\<open>d % 1 == 0\<close>
  reads of it. Rounding to 28 digits never makes a number zero; rounding to the smallest
  exponent of the context, \<^verbatim>\<open>Etiny\<close>, does so when no digit is kept and the number is
  at most half a unit of that exponent.
\<close>

definition etiny :: int where
  "etiny = - 1000026"

definition rounds_to_zero :: "decimal \<Rightarrow> bool" where
  "rounds_to_zero r =
     (let len = length (nat_digits (coeff r));
          kept = int len + exponent r - etiny
      in coeff r = 0 \<or> kept < 0 \<or> (kept = 0 \<and> 2 * coeff r \<le> 10 ^ len))"

subsection \<open>\<^verbatim>\<open>decimal_default\<close>\<close>

text \<open>
  \<^verbatim>\<open>
  def decimal_default(obj):
      if isinstance(obj, Decimal):
          return int(obj) if obj % 1 == 0 else float(obj)
      raise TypeError
  \<close>
\<close>

definition decimal_default :: "pyobj \<Rightarrow> exn + pyobj" where
  "decimal_default obj =
     (case obj of
        PDecimal d \<Rightarrow>
          (case decimal_mod_one d of
             Inl e \<Rightarrow> Inl e
           | Inr r \<Rightarrow>
               Inr (if rounds_to_zero r then PInt (int_of_decimal d) else PFloat (Float_of d)))
      | _ \<Rightarrow> Inl TypeError)"

subsection \<open>\<^verbatim>\<open>json.dumps\<close>\<close>

text \<open>
  Both bodies the handler serialises are flat dictionaries whose values are a
  \<^verbatim>\<open>str\<close> or an \<^verbatim>\<open>int\<close>. \<^verbatim>\<open>json.dumps\<close> encodes these natively and
  calls its \<^verbatim>\<open>default\<close> hook only on an object it cannot encode, so the hook
  \<^verbatim>\<open>decimal_default\<close> passed at both call sites is never entered.

  A string is encoded as \<^verbatim>\<open>py_encode_basestring_ascii\<close> does (\<^verbatim>\<open>ensure_ascii\<close> is
  on by default): backslash, double quote and the five short escapes, \<^verbatim>\<open>\u00xx\<close> for
  every other character outside \<^verbatim>\<open>' '..'~'\<close>. Items are joined by \<^verbatim>\<open>", "\<close>, key
  and value by \<^verbatim>\<open>": "\<close>, in the order of the dictionary.
\<close>

text \<open>A \<^verbatim>\<open>str\<close> or an \<^verbatim>\<open>int\<close>: the values of the dictionaries the handler builds.\<close>

datatype jval = JStr string | JInt int

definition hex_digit :: "nat \<Rightarrow> char" where
  "hex_digit d = ''0123456789abcdef'' ! d"

definition escape_char :: "char \<Rightarrow> string" where
  "escape_char c =
     (if c = CHR 0x5C then [CHR 0x5C, CHR 0x5C]
      else if c = CHR 0x22 then [CHR 0x5C, CHR 0x22]
      else if c = CHR 0x08 then [CHR 0x5C, CHR ''b'']
      else if c = CHR 0x0C then [CHR 0x5C, CHR ''f'']
      else if c = CHR 0x0A then [CHR 0x5C, CHR ''n'']
      else if c = CHR 0x0D then [CHR 0x5C, CHR ''r'']
      else if c = CHR 0x09 then [CHR 0x5C, CHR ''t'']
      else if (of_char c :: nat) < 32 \<or> 126 < (of_char c :: nat)
        then [CHR 0x5C, CHR ''u'', CHR ''0'', CHR ''0'',
              hex_digit (of_char c div 16), hex_digit (of_char c mod 16)]
      else [c])"

definition encode_str :: "string \<Rightarrow> string" where
  "encode_str s = [CHR 0x22] @ concat (map escape_char s) @ [CHR 0x22]"

fun encode_val :: "jval \<Rightarrow> string" where
  "encode_val (JStr s) = encode_str s"
| "encode_val (JInt i) = str_int i"

fun join_items :: "string list \<Rightarrow> string" where
  "join_items [] = []"
| "join_items [x] = x"
| "join_items (x # y # ys) = x @ '', '' @ join_items (y # ys)"

definition json_dumps :: "(string \<times> jval) list \<Rightarrow> string" where
  "json_dumps kvs =
     ''{'' @ join_items (map (\<lambda>(k, v). encode_str k @ '': '' @ encode_val v) kvs) @ ''}''"

subsection \<open>The store, the clock and the log\<close>

text \<open>
  A DynamoDB attribute value, and what boto3 hands back for it: a number as a
  \<^verbatim>\<open>Decimal\<close>, a string as a \<^verbatim>\<open>str\<close>, a boolean as a \<^verbatim>\<open>bool\<close>, null as
  \<^verbatim>\<open>None\<close>. An item is a dictionary of attributes; the table maps the value of the key
  attribute \<^verbatim>\<open>id\<close> to the item stored under it. A DynamoDB number has at most 38
  significant digits and a magnitude between \<^verbatim>\<open>1E-130\<close> and \<^verbatim>\<open>1E+126\<close>, so the
  integers met here are far below any limit the interpreter puts on printing one.
\<close>

datatype attr = N decimal | S string | BOOL bool | NULL

type_synonym item = "string \<rightharpoonup> attr"

text \<open>
  \<^verbatim>\<open>datetime.utcnow()\<close>: a clock reading, of which the handler observes
  \<^verbatim>\<open>.isoformat()\<close> and \<^verbatim>\<open>int(.timestamp())\<close>. The years of a \<^verbatim>\<open>datetime\<close>
  run from 1 to 9999, so the second is a number of at most twelve digits; the statements
  below ask only that it have no more than 38.
\<close>

record datetime =
  isoformat :: string
  timestamp :: int

text \<open>
  What the outside does during one invocation: whether the store makes \<^verbatim>\<open>get_item\<close>
  and \<^verbatim>\<open>put_item\<close> raise (and which exception), what the built-in \<^verbatim>\<open>int\<close> makes of a
  stored value that is neither a number nor a boolean (a \<^verbatim>\<open>str\<close> is parsed or is a
  \<^verbatim>\<open>ValueError\<close>, \<^verbatim>\<open>None\<close> is a \<^verbatim>\<open>TypeError\<close>; the texts depend on the
  interpreter), and the three clock readings in program order (lines 65, 66 and 81).
\<close>

record env =
  get_item_raises :: "exn option"
  put_item_raises :: "exn option"
  builtin_int :: "attr \<Rightarrow> exn + int"
  utcnow_1 :: datetime
  utcnow_2 :: datetime
  utcnow_3 :: datetime

text \<open>
  What boto3 makes of a Python \<^verbatim>\<open>int\<close> before anything is sent
  (\<^verbatim>\<open>TypeSerializer\<close>, \<^verbatim>\<open>DYNAMODB_CONTEXT.create_decimal\<close>): the context has precision
  38 and largest exponent 126 and traps \<^verbatim>\<open>Rounded\<close>, \<^verbatim>\<open>Inexact\<close> and
  \<^verbatim>\<open>Overflow\<close>, so an integer of more than 38 digits raises: \<^verbatim>\<open>Overflow\<close> when,
  rounded half to even to 38 digits, it reaches \<^verbatim>\<open>1E+127\<close>, else \<^verbatim>\<open>Inexact\<close> when a
  non-zero digit is dropped, else \<^verbatim>\<open>Rounded\<close>. A \<^verbatim>\<open>str\<close> is taken as it is. The
  values of a dictionary are serialised in its order, and the first failure is raised.
\<close>

definition serialize_n :: "int \<Rightarrow> exn + decimal" where
  "serialize_n n =
     (let m = nat \<bar>n\<bar>; len = length (nat_digits m) in
      if len \<le> 38 then Inr (decimal_of_int n)
      else
        (let k = len - 38;
             q = m div 10 ^ k;
             r = m mod 10 ^ k;
             up = (10 ^ k < 2 * r \<or> (2 * r = 10 ^ k \<and> q mod 2 = 1));
             carry = (up \<and> q = 10 ^ 38 - 1)
         in if 126 < int len - 1 + (if carry then 1 else 0) then Inl Overflow
            else if r = 0 then Inl Rounded
            else Inl Inexact))"

fun serialize :: "jval \<Rightarrow> exn + attr" where
  "serialize (JStr s) = Inr (S s)"
| "serialize (JInt n) = (case serialize_n n of Inl x \<Rightarrow> Inl x | Inr d \<Rightarrow> Inr (N d))"

fun serialize_item :: "(string \<times> jval) list \<Rightarrow> exn + (string \<times> attr) list" where
  "serialize_item [] = Inr []"
| "serialize_item ((k, v) # rest) =
     (case serialize v of
        Inl x \<Rightarrow> Inl x
      | Inr a \<Rightarrow>
          (case serialize_item rest of
             Inl x \<Rightarrow> Inl x
           | Inr stored \<Rightarrow> Inr ((k, a) # stored)))"

datatype call = Get_item string | Put_item string "(string \<times> jval) list"

text \<open>
  What persists between invocations: the table, the store calls issued so far (a call that
  raises is recorded too) and the lines printed.
\<close>

record world =
  table :: "string \<rightharpoonup> item"
  calls :: "call list"
  printed :: "string list"

text \<open>
  \<^verbatim>\<open>table.get_item(Key={'id': k})\<close>: the response has an \<^verbatim>\<open>Item\<close> exactly when
  the table holds one under \<open>k\<close>.
\<close>

definition get_item :: "env \<Rightarrow> string \<Rightarrow> world \<Rightarrow> (exn + item option) \<times> world" where
  "get_item e k w =
     (let w' = w\<lparr>calls := calls w @ [Get_item k]\<rparr> in
      case get_item_raises e of
        Some x \<Rightarrow> (Inl x, w')
      | None \<Rightarrow> (Inr (table w k), w'))"

text \<open>
  \<^verbatim>\<open>table.put_item(Item=it)\<close>, \<open>k\<close> the value of the item's \<^verbatim>\<open>id\<close>: the item is
  serialised, which may raise; then it is sent, which may raise; then it replaces whatever
  the table held under \<open>k\<close>. A call that raises has written nothing.
\<close>

definition put_item ::
  "env \<Rightarrow> string \<Rightarrow> (string \<times> jval) list \<Rightarrow> world \<Rightarrow> (exn + unit) \<times> world" where
  "put_item e k it w =
     (let w' = w\<lparr>calls := calls w @ [Put_item k it]\<rparr> in
      case serialize_item it of
        Inl x \<Rightarrow> (Inl x, w')
      | Inr stored \<Rightarrow>
          (case put_item_raises e of
             Some x \<Rightarrow> (Inl x, w')
           | None \<Rightarrow> (Inr (), w'\<lparr>table := (table w')(k \<mapsto> map_of stored)\<rparr>)))"

text \<open>
  \<^verbatim>\<open>int(v)\<close> of a stored value: a \<^verbatim>\<open>Decimal\<close> is truncated, a \<^verbatim>\<open>bool\<close> is 0 or 1.
\<close>

definition py_int :: "env \<Rightarrow> attr \<Rightarrow> exn + int" where
  "py_int e a =
     (case a of
        N d \<Rightarrow> Inr (int_of_decimal d)
      | BOOL b \<Rightarrow> Inr (if b then 1 else 0)
      | _ \<Rightarrow> builtin_int e a)"

subsection \<open>\<^verbatim>\<open>lambda_handler\<close>\<close>

record response =
  statusCode :: int
  headers :: "(string \<times> string) list"
  body :: string

type_synonym event = "string \<rightharpoonup> pyobj"

definition preflight_response :: response where
  "preflight_response =
     \<lparr>statusCode = 200,
      headers = [(''Access-Control-Allow-Origin'', ''*''),
                 (''Access-Control-Allow-Headers'', ''Content-Type''),
                 (''Access-Control-Allow-Methods'', ''GET, POST, OPTIONS'')],
      body = json_dumps [(''message'', JStr ''CORS preflight'')]\<rparr>"

definition success_response :: "int \<Rightarrow> string \<Rightarrow> response" where
  "success_response new_count ts =
     \<lparr>statusCode = 200,
      headers = [(''Access-Control-Allow-Origin'', ''*''),
                 (''Access-Control-Allow-Headers'', ''Content-Type''),
                 (''Access-Control-Allow-Methods'', ''GET, POST, OPTIONS''),
                 (''Content-Type'', ''application/json'')],
      body = json_dumps [(''visitor_count'', JInt new_count),
                         (''timestamp'', JStr ts),
                         (''status'', JStr ''success'')]\<rparr>"

definition error_response :: "string \<Rightarrow> response" where
  "error_response msg =
     \<lparr>statusCode = 500,
      headers = [(''Access-Control-Allow-Origin'', ''*''),
                 (''Content-Type'', ''application/json'')],
      body = json_dumps [(''error'', JStr ''Internal server error''),
                         (''message'', JStr msg),
                         (''status'', JStr ''error'')]\<rparr>"

text \<open>The item written at lines 61 to 68.\<close>

definition new_item :: "int \<Rightarrow> datetime \<Rightarrow> datetime \<Rightarrow> (string \<times> jval) list" where
  "new_item new_count t1 t2 =
     [(''id'', JStr ''visitor_count''),
      (''count'', JInt new_count),
      (''last_updated'', JStr (isoformat t1)),
      (''timestamp'', JInt (timestamp t2))]"

text \<open>
  \<^verbatim>\<open>int(response['Item']['count'])\<close>, or 0 when the response has no \<^verbatim>\<open>Item\<close>; an
  item without \<^verbatim>\<open>count\<close> is a \<^verbatim>\<open>KeyError\<close>.
\<close>

definition current_count :: "env \<Rightarrow> item option \<Rightarrow> exn + int" where
  "current_count e resp =
     (case resp of
        None \<Rightarrow> Inr 0
      | Some it \<Rightarrow> (case it ''count'' of None \<Rightarrow> Inl (KeyError ''count'') | Some a \<Rightarrow> py_int e a))"

text \<open>The body of the \<^verbatim>\<open>try\<close> statement, lines 35 to 84.\<close>

definition try_body :: "event \<Rightarrow> env \<Rightarrow> world \<Rightarrow> (exn + response) \<times> world" where
  "try_body event e w =
     (if event ''httpMethod'' = Some (PStr ''OPTIONS'') then (Inr preflight_response, w)
      else
        (case get_item e ''visitor_count'' w of
           (Inl x, w1) \<Rightarrow> (Inl x, w1)
         | (Inr resp, w1) \<Rightarrow>
             (case current_count e resp of
                Inl x \<Rightarrow> (Inl x, w1)
              | Inr cur \<Rightarrow>
                  (let new_count = cur + 1 in
                   case put_item e ''visitor_count''
                          (new_item new_count (utcnow_1 e) (utcnow_2 e)) w1 of
                     (Inl x, w2) \<Rightarrow> (Inl x, w2)
                   | (Inr _, w2) \<Rightarrow>
                       (Inr (success_response new_count (isoformat (utcnow_3 e))), w2)))))"

text \<open>
  The handler: the \<^verbatim>\<open>try\<close> body, and the \<^verbatim>\<open>except Exception as e\<close> clause that prints
  the text of the exception and answers 500. The argument \<open>context\<close> is never read.
\<close>

definition lambda_handler :: "event \<Rightarrow> 'c \<Rightarrow> env \<Rightarrow> world \<Rightarrow> response \<times> world" where
  "lambda_handler event context e w =
     (case try_body event e w of
        (Inr r, w') \<Rightarrow> (r, w')
      | (Inl x, w') \<Rightarrow>
          (error_response (str_exn x),
           w'\<lparr>printed := printed w' @ [''Error: '' @ str_exn x]\<rparr>))"

text \<open>Invocations one after the other, each on the world the one before left.\<close>

fun invocations :: "(event \<times> 'c \<times> env) list \<Rightarrow> world \<Rightarrow> response list \<times> world" where
  "invocations [] w = ([], w)"
| "invocations ((event, context, e) # rest) w =
     (case lambda_handler event context e w of
        (r, w1) \<Rightarrow> (case invocations rest w1 of (rs, w2) \<Rightarrow> (r # rs, w2)))"

subsection \<open>Notions and sample values used in the statements\<close>

text \<open>A request that is not a preflight (line 36 fails), and a store whose two calls return.\<close>

definition counter_request :: "event \<Rightarrow> bool" where
  "counter_request event \<longleftrightarrow> event ''httpMethod'' \<noteq> Some (PStr ''OPTIONS'')"

definition store_works :: "env \<Rightarrow> bool" where
  "store_works e \<longleftrightarrow> get_item_raises e = None \<and> put_item_raises e = None"

text \<open>A Decimal whose value is a whole number.\<close>

definition integral :: "decimal \<Rightarrow> bool" where
  "integral d \<longleftrightarrow> 0 \<le> exponent d \<or> coeff d mod 10 ^ nat (- exponent d) = 0"

text \<open>Sample clock readings, environments, worlds and events.\<close>

definition clock_a :: datetime where
  "clock_a = \<lparr>isoformat = ''2024-05-01T12:00:00.000123'', timestamp = 1714564800\<rparr>"

definition clock_b :: datetime where
  "clock_b = \<lparr>isoformat = ''2024-05-01T12:00:00.000131'', timestamp = 1714564800\<rparr>"

definition clock_c :: datetime where
  "clock_c = \<lparr>isoformat = ''2024-05-01T12:00:00.048210'', timestamp = 1714564800\<rparr>"

definition store_up :: env where
  "store_up =
     \<lparr>get_item_raises = None, put_item_raises = None,
      builtin_int = (\<lambda>a. Inl (Raised ''not a number'')),
      utcnow_1 = clock_a, utcnow_2 = clock_b, utcnow_3 = clock_c\<rparr>"

definition store_down :: env where
  "store_down = store_up\<lparr>get_item_raises := Some (Raised ''store unavailable'')\<rparr>"

definition write_fails :: env where
  "write_fails = store_up\<lparr>put_item_raises := Some (Raised ''write refused'')\<rparr>"

definition fresh :: world where
  "fresh = \<lparr>table = Map.empty, calls = [], printed = []\<rparr>"

definition holding :: "attr \<Rightarrow> world" where
  "holding a =
     \<lparr>table = [''visitor_count'' \<mapsto> [''id'' \<mapsto> S ''visitor_count'', ''count'' \<mapsto> a]],
      calls = [], printed = []\<rparr>"

definition options_event :: event where
  "options_event = [''httpMethod'' \<mapsto> PStr ''OPTIONS'']"

definition get_event :: event where
  "get_event = [''httpMethod'' \<mapsto> PStr ''GET'', ''path'' \<mapsto> PStr ''/count'']"

definition post_event :: event where
  "post_event = [''httpMethod'' \<mapsto> PStr ''POST'', ''body'' \<mapsto> PNone]"

text \<open>The record the table holds once the item of lines 61 to 68 is written.\<close>

definition written :: "int \<Rightarrow> datetime \<Rightarrow> datetime \<Rightarrow> item" where
  "written new_count t1 t2 =
     [''id'' \<mapsto> S ''visitor_count'',
      ''count'' \<mapsto> N (decimal_of_int new_count),
      ''last_updated'' \<mapsto> S (isoformat t1),
      ''timestamp'' \<mapsto> N (decimal_of_int (timestamp t2))]"

text \<open>
  A world whose table holds nothing but the counter record, with count \<open>m\<close>, or holds
  nothing at all (\<open>m = 0\<close>).
\<close>

definition counted :: "int \<Rightarrow> world \<Rightarrow> bool" where
  "counted m w \<longleftrightarrow>
     dom (table w) \<subseteq> {''visitor_count''} \<and>
     (case table w ''visitor_count'' of
        None \<Rightarrow> m = 0
      | Some it \<Rightarrow> it ''count'' = Some (N (decimal_of_int m)))"

definition three_requests :: "(event \<times> unit \<times> env) list" where
  "three_requests = [(get_event, (), store_up), (post_event, (), store_up), (Map.empty, (), store_up)]"

text \<open>A world whose counter record has lost its \<^verbatim>\<open>count\<close>.\<close>

definition no_count :: world where
  "no_count =
     \<lparr>table = [''visitor_count'' \<mapsto> [''id'' \<mapsto> S ''visitor_count'']],
      calls = [], printed = []\<rparr>"

section \<open>Properties\<close>

subsection \<open>Printing integers\<close>

text \<open>
  \<^verbatim>\<open>str\<close> of an integer is injective and holds no comma, so two success bodies with
  different counts are different strings whatever their timestamps. A number has as many
  digits as its size asks for.
\<close>

lemma digit_char_code:
  assumes "d < 10"
  shows "(of_char (digit_char d) :: nat) = 48 + d"
proof -
  from assms consider "d = 0" | "d = 1" | "d = 2" | "d = 3" | "d = 4"
    | "d = 5" | "d = 6" | "d = 7" | "d = 8" | "d = 9"
    by atomize_elim arith
  then show ?thesis
    by cases (simp_all add: digit_char_def)
qed

lemma digit_char_inj:
  assumes "a < 10" and "b < 10" and "digit_char a = digit_char b"
  shows "a = b"
proof -
  have "(of_char (digit_char a) :: nat) = of_char (digit_char b)"
    using assms(3) by simp
  with assms(1,2) show ?thesis by (simp add: digit_char_code)
qed

lemma nat_digits_nonempty: "nat_digits n \<noteq> []"
  by (subst nat_digits.simps) simp

lemma nat_digits_chars:
  "c \<in> set (nat_digits n) \<Longrightarrow> \<exists>d<10. c = digit_char d"
proof (induction n rule: nat_digits.induct)
  case (1 n)
  show ?case
  proof (cases "n < 10")
    case True
    with "1.prems" show ?thesis by (subst (asm) nat_digits.simps) auto
  next
    case False
    with "1.prems" have "c \<in> set (nat_digits (n div 10)) \<or> c = digit_char (n mod 10)"
      by (subst (asm) nat_digits.simps) auto
    then show ?thesis
    proof
      assume "c \<in> set (nat_digits (n div 10))"
      with False "1.IH" show ?thesis by simp
    next
      assume "c = digit_char (n mod 10)"
      moreover have "n mod 10 < 10" by simp
      ultimately show ?thesis by blast
    qed
  qed
qed

lemma nat_digits_inj: "nat_digits a = nat_digits b \<Longrightarrow> a = b"
proof (induction a arbitrary: b rule: nat_digits.induct)
  case (1 a)
  show ?case
  proof (cases "a < 10")
    case small_a: True
    then have da: "nat_digits a = [digit_char a]" by (subst nat_digits.simps) simp
    show ?thesis
    proof (cases "b < 10")
      case True
      then have "nat_digits b = [digit_char b]" by (subst nat_digits.simps) simp
      with da "1.prems" small_a True show ?thesis by (simp add: digit_char_inj)
    next
      case False
      then have "nat_digits b = nat_digits (b div 10) @ [digit_char (b mod 10)]"
        by (subst nat_digits.simps) simp
      with da "1.prems" have "nat_digits (b div 10) = []" by simp
      then show ?thesis by (simp add: nat_digits_nonempty)
    qed
  next
    case big_a: False
    then have da: "nat_digits a = nat_digits (a div 10) @ [digit_char (a mod 10)]"
      by (subst nat_digits.simps) simp
    show ?thesis
    proof (cases "b < 10")
      case True
      then have "nat_digits b = [digit_char b]" by (subst nat_digits.simps) simp
      with da "1.prems" have "nat_digits (a div 10) = []" by simp
      then show ?thesis by (simp add: nat_digits_nonempty)
    next
      case False
      then have "nat_digits b = nat_digits (b div 10) @ [digit_char (b mod 10)]"
        by (subst nat_digits.simps) simp
      with da "1.prems" have eq: "nat_digits (a div 10) = nat_digits (b div 10)"
        and last: "digit_char (a mod 10) = digit_char (b mod 10)" by simp_all
      from eq big_a "1.IH" have "a div 10 = b div 10" by simp
      moreover from last have "a mod 10 = b mod 10" by (simp add: digit_char_inj)
      ultimately show ?thesis by (metis div_mult_mod_eq)
    qed
  qed
qed

lemma minus_not_digit: "CHR ''-'' \<notin> set (nat_digits n)"
proof
  assume "CHR ''-'' \<in> set (nat_digits n)"
  then obtain d where "d < 10" and "CHR ''-'' = digit_char d"
    using nat_digits_chars by blast
  then have "(of_char (CHR ''-'') :: nat) = 48 + d" by (simp add: digit_char_code)
  then show False by simp
qed

lemma comma_not_digit: "CHR '','' \<notin> set (nat_digits n)"
proof
  assume "CHR '','' \<in> set (nat_digits n)"
  then obtain d where "d < 10" and "CHR '','' = digit_char d"
    using nat_digits_chars by blast
  then have "(of_char (CHR '','') :: nat) = 48 + d" by (simp add: digit_char_code)
  then show False by simp
qed

lemma str_int_inj: "str_int a = str_int b \<Longrightarrow> a = b"
proof -
  assume eq: "str_int a = str_int b"
  show "a = b"
  proof (cases "a < 0"; cases "b < 0")
    assume "a < 0" "b < 0"
    with eq have "nat (- a) = nat (- b)" by (simp add: str_int_def nat_digits_inj)
    with \<open>a < 0\<close> \<open>b < 0\<close> show ?thesis by simp
  next
    assume "a < 0" "\<not> b < 0"
    with eq have "CHR ''-'' # nat_digits (nat (- a)) = nat_digits (nat b)"
      by (simp add: str_int_def)
    then have "CHR ''-'' \<in> set (nat_digits (nat b))" by (metis list.set_intros(1))
    with minus_not_digit show ?thesis by blast
  next
    assume "\<not> a < 0" "b < 0"
    with eq have "nat_digits (nat a) = CHR ''-'' # nat_digits (nat (- b))"
      by (simp add: str_int_def)
    then have "CHR ''-'' \<in> set (nat_digits (nat a))" by (metis list.set_intros(1))
    with minus_not_digit show ?thesis by blast
  next
    assume "\<not> a < 0" "\<not> b < 0"
    with eq have "nat a = nat b" by (simp add: str_int_def nat_digits_inj)
    with \<open>\<not> a < 0\<close> \<open>\<not> b < 0\<close> show ?thesis by simp
  qed
qed

lemma comma_not_in_str_int: "CHR '','' \<notin> set (str_int i)"
  by (simp add: str_int_def comma_not_digit)

lemma cut_at_separator:
  assumes "xs @ c # r1 = ys @ c # r2" and "c \<notin> set xs" and "c \<notin> set ys"
  shows "xs = ys"
proof -
  have "takeWhile (\<lambda>x. x \<noteq> c) (xs @ c # r1) = xs"
    using assms(2) by (auto simp add: takeWhile_tail)
  moreover have "takeWhile (\<lambda>x. x \<noteq> c) (ys @ c # r2) = ys"
    using assms(3) by (auto simp add: takeWhile_tail)
  ultimately show ?thesis using assms(1) by simp
qed

lemma success_body_inj:
  assumes "body (success_response n ts) = body (success_response m ts')"
  shows "n = m"
proof -
  define pre where "pre = ''{'' @ encode_str ''visitor_count'' @ '': ''"
  define rest where "rest = (\<lambda>t. '' '' @ encode_str ''timestamp'' @ '': '' @ encode_str t
      @ '', '' @ encode_str ''status'' @ '': '' @ encode_str ''success'' @ ''}'')"
  have shape: "body (success_response k t) = pre @ str_int k @ CHR '','' # rest t" for k t
    by (simp add: success_response_def json_dumps_def pre_def rest_def)
  from assms have "pre @ str_int n @ CHR '','' # rest ts = pre @ str_int m @ CHR '','' # rest ts'"
    by (simp only: shape)
  then have "str_int n @ CHR '','' # rest ts = str_int m @ CHR '','' # rest ts'"
    by simp
  then have "str_int n = str_int m"
    by (rule cut_at_separator) (rule comma_not_in_str_int)+
  then show ?thesis by (rule str_int_inj)
qed

lemma nat_digits_upper: "n < 10 ^ length (nat_digits n)"
proof (induction n rule: nat_digits.induct)
  case (1 n)
  show ?case
  proof (cases "n < 10")
    case True
    then show ?thesis by (subst nat_digits.simps) simp
  next
    case False
    with "1.IH" have "n div 10 < 10 ^ length (nat_digits (n div 10))" by simp
    then have "n < 10 * 10 ^ length (nat_digits (n div 10))" by simp
    with False show ?thesis by (subst nat_digits.simps) simp
  qed
qed

lemma nat_digits_lower: "0 < n \<Longrightarrow> 10 ^ (length (nat_digits n) - 1) \<le> n"
proof (induction n rule: nat_digits.induct)
  case (1 n)
  show ?case
  proof (cases "n < 10")
    case True
    with "1.prems" show ?thesis by (subst nat_digits.simps) simp
  next
    case False
    then have pos: "0 < n div 10" by simp
    with False "1.IH" have ih: "10 ^ (length (nat_digits (n div 10)) - 1) \<le> n div 10" by simp
    have len: "length (nat_digits n) - 1 = Suc (length (nat_digits (n div 10)) - 1)"
      using False by (subst nat_digits.simps)
        (simp add: Suc_diff_1 [OF length_greater_0_conv [THEN iffD2]] nat_digits.simps [of "n div 10"])
    from ih have "10 * 10 ^ (length (nat_digits (n div 10)) - 1) \<le> 10 * (n div 10)" by simp
    also have "\<dots> \<le> n" by simp
    finally show ?thesis unfolding len by simp
  qed
qed


lemma pow10_mono: "a \<le> b \<Longrightarrow> (10::nat) ^ a \<le> 10 ^ b"
  by (rule power_increasing) simp_all

lemma digits_fit: "m < 10 ^ 38 \<Longrightarrow> length (nat_digits m) \<le> 38"
proof (cases "m = 0")
  case True
  then show ?thesis by (simp add: nat_digits.simps)
next
  case False
  assume small: "m < 10 ^ 38"
  from False have "10 ^ (length (nat_digits m) - 1) \<le> m"
    using nat_digits_lower [of m] by simp
  from this small have "(10::nat) ^ (length (nat_digits m) - 1) < 10 ^ 38"
    by (rule le_less_trans)
  then have "length (nat_digits m) - 1 < 38"
    using power_less_imp_less_exp [of 10 "length (nat_digits m) - 1" 38] by simp
  then show ?thesis by simp
qed

subsection \<open>What the serializer takes\<close>

lemma serialize_n_fits: "\<bar>n\<bar> < 10 ^ 38 \<Longrightarrow> serialize_n n = Inr (decimal_of_int n)"
proof -
  assume "\<bar>n\<bar> < 10 ^ 38"
  then have "nat \<bar>n\<bar> < 10 ^ 38" by (simp add: nat_less_iff)
  then have "length (nat_digits (nat \<bar>n\<bar>)) \<le> 38" by (rule digits_fit)
  then show ?thesis by (simp add: serialize_n_def)
qed

lemma serialize_n_too_long: "10 ^ 38 \<le> \<bar>n\<bar> \<Longrightarrow> \<exists>x. serialize_n n = Inl x"
proof -
  assume "10 ^ 38 \<le> \<bar>n\<bar>"
  then have big: "10 ^ 38 \<le> nat \<bar>n\<bar>" by (simp add: le_nat_iff)
  have "nat \<bar>n\<bar> < 10 ^ length (nat_digits (nat \<bar>n\<bar>))" by (rule nat_digits_upper)
  with big have "(10::nat) ^ 38 < 10 ^ length (nat_digits (nat \<bar>n\<bar>))" by (rule le_less_trans)
  then have "38 < length (nat_digits (nat \<bar>n\<bar>))"
    using power_less_imp_less_exp [of 10 38 "length (nat_digits (nat \<bar>n\<bar>))"] by simp
  then show ?thesis by (simp add: serialize_n_def Let_def)
qed

lemma serialize_new_item:
  assumes "\<bar>n\<bar> < 10 ^ 38" and "\<bar>timestamp t2\<bar> < 10 ^ 38"
  shows "serialize_item (new_item n t1 t2) =
    Inr [(''id'', S ''visitor_count''), (''count'', N (decimal_of_int n)),
         (''last_updated'', S (isoformat t1)), (''timestamp'', N (decimal_of_int (timestamp t2)))]"
  using assms by (simp add: new_item_def serialize_n_fits)

lemma map_of_written:
  "map_of [(''id'', S ''visitor_count''), (''count'', N (decimal_of_int n)),
           (''last_updated'', S (isoformat t1)), (''timestamp'', N (decimal_of_int (timestamp t2)))]
   = written n t1 t2"
  by (rule ext) (simp add: written_def)

lemma written_count: "written n t1 t2 ''count'' = Some (N (decimal_of_int n))"
  by (simp add: written_def)

subsection \<open>The paths through the handler\<close>

lemma try_body_options:
  "event ''httpMethod'' = Some (PStr ''OPTIONS'') \<Longrightarrow>
   try_body event e w = (Inr preflight_response, w)"
  by (simp add: try_body_def)

lemma try_body_get_raises:
  assumes "event ''httpMethod'' \<noteq> Some (PStr ''OPTIONS'')" and "get_item_raises e = Some x"
  shows "try_body event e w = (Inl x, w\<lparr>calls := calls w @ [Get_item ''visitor_count'']\<rparr>)"
  using assms by (simp add: try_body_def get_item_def)

lemma try_body_count_raises:
  assumes "event ''httpMethod'' \<noteq> Some (PStr ''OPTIONS'')" and "get_item_raises e = None"
    and "current_count e (table w ''visitor_count'') = Inl x"
  shows "try_body event e w = (Inl x, w\<lparr>calls := calls w @ [Get_item ''visitor_count'']\<rparr>)"
  using assms by (simp add: try_body_def get_item_def)

lemma try_body_serialize_raises:
  assumes "event ''httpMethod'' \<noteq> Some (PStr ''OPTIONS'')" and "get_item_raises e = None"
    and "current_count e (table w ''visitor_count'') = Inr cur"
    and "serialize_item (new_item (cur + 1) (utcnow_1 e) (utcnow_2 e)) = Inl x"
  shows "try_body event e w =
    (Inl x, w\<lparr>calls := calls w @ [Get_item ''visitor_count'',
        Put_item ''visitor_count'' (new_item (cur + 1) (utcnow_1 e) (utcnow_2 e))]\<rparr>)"
  using assms by (simp add: try_body_def get_item_def put_item_def Let_def)

lemma try_body_put_raises:
  assumes "event ''httpMethod'' \<noteq> Some (PStr ''OPTIONS'')" and "get_item_raises e = None"
    and "current_count e (table w ''visitor_count'') = Inr cur"
    and "serialize_item (new_item (cur + 1) (utcnow_1 e) (utcnow_2 e)) = Inr stored"
    and "put_item_raises e = Some x"
  shows "try_body event e w =
    (Inl x, w\<lparr>calls := calls w @ [Get_item ''visitor_count'',
        Put_item ''visitor_count'' (new_item (cur + 1) (utcnow_1 e) (utcnow_2 e))]\<rparr>)"
  using assms by (simp add: try_body_def get_item_def put_item_def Let_def)

lemma put_item_new_item:
  assumes "\<bar>n\<bar> < 10 ^ 38" and "\<bar>timestamp t2\<bar> < 10 ^ 38" and "put_item_raises e = None"
  shows "put_item e k (new_item n t1 t2) w =
    (Inr (), w\<lparr>calls := calls w @ [Put_item k (new_item n t1 t2)],
              table := (table w)(k \<mapsto> written n t1 t2)\<rparr>)"
  using assms
  by (simp add: put_item_def Let_def serialize_new_item map_of_written del: map_of.simps)

lemma try_body_success:
  assumes "event ''httpMethod'' \<noteq> Some (PStr ''OPTIONS'')" and "get_item_raises e = None"
    and "current_count e (table w ''visitor_count'') = Inr cur"
    and "\<bar>cur + 1\<bar> < 10 ^ 38" and "\<bar>timestamp (utcnow_2 e)\<bar> < 10 ^ 38"
    and "put_item_raises e = None"
  shows "try_body event e w =
    (Inr (success_response (cur + 1) (isoformat (utcnow_3 e))),
     w\<lparr>calls := calls w @ [Get_item ''visitor_count'',
             Put_item ''visitor_count'' (new_item (cur + 1) (utcnow_1 e) (utcnow_2 e))],
       table := (table w)(''visitor_count'' \<mapsto> written (cur + 1) (utcnow_1 e) (utcnow_2 e))\<rparr>)"
  using assms
  by (simp add: try_body_def get_item_def put_item_new_item Let_def)

text \<open>Whatever happens, the answer is one of the three responses the module builds.\<close>

lemma lambda_handler_outcomes:
  "fst (lambda_handler event ctx e w) = preflight_response
   \<or> (\<exists>n ts. fst (lambda_handler event ctx e w) = success_response n ts)
   \<or> (\<exists>x. fst (lambda_handler event ctx e w) = error_response (str_exn x))"
proof (cases "try_body event e w")
  case (Pair res w')
  show ?thesis
  proof (cases res)
    case (Inl x)
    with Pair show ?thesis by (auto simp add: lambda_handler_def)
  next
    case (Inr r)
    with Pair have "r = preflight_response \<or> (\<exists>n ts. r = success_response n ts)"
      by (auto simp add: try_body_def get_item_def put_item_def Let_def
          split: if_splits option.splits sum.splits prod.splits)
    with Pair Inr show ?thesis by (auto simp add: lambda_handler_def)
  qed
qed

text \<open>The equations that evaluate a body on concrete values.\<close>

lemmas eval_json =
  json_dumps_def encode_str_def escape_char_def str_int_def nat_digits.simps digit_char_def

lemma int_of_decimal_of_int: "int_of_decimal (decimal_of_int n) = n"
  by (simp add: int_of_decimal_def decimal_of_int_def Let_def)

subsection \<open>The preflight\<close>

text \<open>
  C2. For every event whose \<^verbatim>\<open>httpMethod\<close> is \<^verbatim>\<open>OPTIONS\<close>, whatever the table holds
  and whether or not the store would answer, the handler returns status 200, the three CORS
  headers and the body \<^verbatim>\<open>{"message": "CORS preflight"}\<close>, and leaves the world as it
  was: no store call is issued, nothing is written, nothing is printed.
\<close>

theorem options_is_preflight:
  assumes "event ''httpMethod'' = Some (PStr ''OPTIONS'')"
  shows \<open>lambda_handler event ctx e w =
    (\<lparr>statusCode = 200,
      headers = [(''Access-Control-Allow-Origin'', ''*''),
                 (''Access-Control-Allow-Headers'', ''Content-Type''),
                 (''Access-Control-Allow-Methods'', ''GET, POST, OPTIONS'')],
      body = ''{"message": "CORS preflight"}''\<rparr>, w)\<close>
  using assms
  by (simp add: lambda_handler_def try_body_options preflight_response_def json_dumps_def
      encode_str_def escape_char_def)

theorem options_is_preflight_witness:
  \<open>options_event ''httpMethod'' = Some (PStr ''OPTIONS'') \<and>
   lambda_handler options_event () store_down (holding NULL) =
    (\<lparr>statusCode = 200,
      headers = [(''Access-Control-Allow-Origin'', ''*''),
                 (''Access-Control-Allow-Headers'', ''Content-Type''),
                 (''Access-Control-Allow-Methods'', ''GET, POST, OPTIONS'')],
      body = ''{"message": "CORS preflight"}''\<rparr>, holding NULL)\<close>
  using options_is_preflight [of options_event "()" store_down "holding NULL"]
  by (simp add: options_event_def)

subsection \<open>Headers\<close>

text \<open>
  C5. Every response of the handler, be it the preflight, a success or an error, has the
  header \<^verbatim>\<open>Access-Control-Allow-Origin\<close> with value \<^verbatim>\<open>*\<close>.
\<close>

theorem allow_origin_always:
  "map_of (headers (fst (lambda_handler event ctx e w))) ''Access-Control-Allow-Origin''
     = Some ''*''"
  using lambda_handler_outcomes [of event ctx e w]
  by (auto simp add: preflight_response_def success_response_def error_response_def)

subsection \<open>What the handler reads of its arguments\<close>

text \<open>
  C10. Two events with the same value of \<^verbatim>\<open>httpMethod\<close> (or both without one), handled
  against the same world under the same environment (so the same clock readings), give the
  same response and the same world afterwards, whatever else the events hold and whatever
  the two context arguments are.
\<close>

theorem same_method_same_response:
  assumes "event1 ''httpMethod'' = event2 ''httpMethod''"
  shows "lambda_handler event1 ctx1 e w = lambda_handler event2 ctx2 e w"
  using assms by (simp add: lambda_handler_def try_body_def)

theorem same_method_same_response_witness:
  "get_event ''httpMethod'' = (get_event(''path'' \<mapsto> PInt 7)) ''httpMethod'' \<and>
   lambda_handler get_event (1 :: nat) store_up fresh
     = lambda_handler (get_event(''path'' \<mapsto> PInt 7)) True store_up fresh"
  using same_method_same_response
    [of get_event "get_event(''path'' \<mapsto> PInt 7)" "1 :: nat" store_up fresh True]
  by simp

subsection \<open>A failing read\<close>

text \<open>
  C3. For every event that is not a preflight, if \<^verbatim>\<open>get_item\<close> raises, the handler
  answers status 500 with a body whose \<^verbatim>\<open>status\<close> is \<^verbatim>\<open>error\<close> (and whose
  \<^verbatim>\<open>message\<close> is the text of the exception); the only store call issued is that
  \<^verbatim>\<open>get_item\<close>, so no \<^verbatim>\<open>put_item\<close> is attempted, and the table is unchanged.
\<close>

theorem read_failure_is_500:
  assumes "event ''httpMethod'' \<noteq> Some (PStr ''OPTIONS'')"
    and "get_item_raises e = Some x"
  shows "fst (lambda_handler event ctx e w) =
           \<lparr>statusCode = 500,
            headers = [(''Access-Control-Allow-Origin'', ''*''),
                       (''Content-Type'', ''application/json'')],
            body = json_dumps [(''error'', JStr ''Internal server error''),
                               (''message'', JStr (str_exn x)),
                               (''status'', JStr ''error'')]\<rparr>
         \<and> calls (snd (lambda_handler event ctx e w)) = calls w @ [Get_item ''visitor_count'']
         \<and> table (snd (lambda_handler event ctx e w)) = table w"
  using assms by (simp add: lambda_handler_def try_body_get_raises error_response_def)

theorem read_failure_is_500_witness:
  \<open>get_event ''httpMethod'' \<noteq> Some (PStr ''OPTIONS'')
   \<and> get_item_raises store_down = Some (Raised ''store unavailable'')
   \<and> fst (lambda_handler get_event () store_down (holding (N (Decimal False 41 0)))) =
           \<lparr>statusCode = 500,
            headers = [(''Access-Control-Allow-Origin'', ''*''),
                       (''Content-Type'', ''application/json'')],
            body = ''{"error": "Internal server error", "message": "store unavailable", "status": "error"}''\<rparr>
   \<and> calls (snd (lambda_handler get_event () store_down (holding (N (Decimal False 41 0)))))
        = [Get_item ''visitor_count'']
   \<and> table (snd (lambda_handler get_event () store_down (holding (N (Decimal False 41 0)))))
        = table (holding (N (Decimal False 41 0)))\<close>
  using read_failure_is_500 [of get_event store_down "Raised ''store unavailable''" "()"
      "holding (N (Decimal False 41 0))"]
  by (simp add: get_event_def store_down_def store_up_def holding_def eval_json)

subsection \<open>Failures\<close>

text \<open>
  C7. Whatever makes a request that is not a preflight fail (\<^verbatim>\<open>get_item\<close> raises, the
  stored record has no \<^verbatim>\<open>count\<close> or one that \<^verbatim>\<open>int\<close> rejects, or
  \<^verbatim>\<open>put_item\<close> raises, be it in serialising the item or in sending it), the handler
  returns the one error response: status 500, the two error headers, and a body with
  \<^verbatim>\<open>error\<close> \<^verbatim>\<open>Internal server error\<close>, \<^verbatim>\<open>status\<close> \<^verbatim>\<open>error\<close> and
  \<^verbatim>\<open>message\<close> the text of the exception, which is also printed. Nothing is retried:
  the store was called once (the read) or twice (the read and the one write that raised),
  and the table is as it was. Serialising the body never fails: the values passed to
  \<^verbatim>\<open>json.dumps\<close> are strings and integers.
\<close>

theorem every_failure_is_the_same_500:
  assumes "event ''httpMethod'' \<noteq> Some (PStr ''OPTIONS'')"
    and "get_item_raises e = Some x
         \<or> (get_item_raises e = None \<and> current_count e (table w ''visitor_count'') = Inl x)
         \<or> (get_item_raises e = None \<and> current_count e (table w ''visitor_count'') = Inr cur
              \<and> serialize_item (new_item (cur + 1) (utcnow_1 e) (utcnow_2 e)) = Inl x)
         \<or> (get_item_raises e = None \<and> current_count e (table w ''visitor_count'') = Inr cur
              \<and> serialize_item (new_item (cur + 1) (utcnow_1 e) (utcnow_2 e)) = Inr stored
              \<and> put_item_raises e = Some x)"
  shows "fst (lambda_handler event ctx e w) =
           \<lparr>statusCode = 500,
            headers = [(''Access-Control-Allow-Origin'', ''*''),
                       (''Content-Type'', ''application/json'')],
            body = json_dumps [(''error'', JStr ''Internal server error''),
                               (''message'', JStr (str_exn x)),
                               (''status'', JStr ''error'')]\<rparr>
       \<and> printed (snd (lambda_handler event ctx e w)) = printed w @ [''Error: '' @ str_exn x]
       \<and> table (snd (lambda_handler event ctx e w)) = table w
       \<and> (calls (snd (lambda_handler event ctx e w)) = calls w @ [Get_item ''visitor_count'']
          \<or> calls (snd (lambda_handler event ctx e w)) = calls w @ [Get_item ''visitor_count'',
               Put_item ''visitor_count'' (new_item (cur + 1) (utcnow_1 e) (utcnow_2 e))])"
  using assms(2)
proof (elim disjE conjE)
  assume "get_item_raises e = Some x"
  with assms(1) show ?thesis
    by (simp add: lambda_handler_def try_body_get_raises error_response_def)
next
  assume "get_item_raises e = None" "current_count e (table w ''visitor_count'') = Inl x"
  with assms(1) show ?thesis
    by (simp add: lambda_handler_def try_body_count_raises error_response_def)
next
  assume "get_item_raises e = None" "current_count e (table w ''visitor_count'') = Inr cur"
    "serialize_item (new_item (cur + 1) (utcnow_1 e) (utcnow_2 e)) = Inl x"
  with assms(1) show ?thesis
    by (simp add: lambda_handler_def try_body_serialize_raises error_response_def)
next
  assume "get_item_raises e = None" "current_count e (table w ''visitor_count'') = Inr cur"
    "serialize_item (new_item (cur + 1) (utcnow_1 e) (utcnow_2 e)) = Inr stored"
    "put_item_raises e = Some x"
  with assms(1) try_body_put_raises [of event e w cur stored x] show ?thesis
    by (simp add: lambda_handler_def error_response_def)
qed

theorem every_failure_is_the_same_500_witness:
  \<open>get_event ''httpMethod'' \<noteq> Some (PStr ''OPTIONS'')
   \<and> get_item_raises store_down = Some (Raised ''store unavailable'')
   \<and> body (fst (lambda_handler get_event () store_down fresh))
       = ''{"error": "Internal server error", "message": "store unavailable", "status": "error"}''
   \<and> statusCode (fst (lambda_handler get_event () store_down fresh)) = 500
   \<and> get_item_raises store_up = None
   \<and> current_count store_up (table no_count ''visitor_count'') = Inl (KeyError ''count'')
   \<and> body (fst (lambda_handler get_event () store_up no_count))
       = ''{"error": "Internal server error", "message": "'count'", "status": "error"}''
   \<and> statusCode (fst (lambda_handler get_event () store_up no_count)) = 500
   \<and> printed (snd (lambda_handler get_event () store_up no_count))
       = [''Error: '' @ [CHR 0x27] @ ''count'' @ [CHR 0x27]]
   \<and> current_count store_up (table (holding (N (decimal_of_int (10 ^ 38 - 1)))) ''visitor_count'')
       = Inr (10 ^ 38 - 1)
   \<and> serialize_item (new_item (10 ^ 38 - 1 + 1) (utcnow_1 store_up) (utcnow_2 store_up))
       = Inl Rounded
   \<and> body (fst (lambda_handler get_event () store_up (holding (N (decimal_of_int (10 ^ 38 - 1))))))
       = ''{"error": "Internal server error", "message": "[<class 'decimal.Rounded'>]", "status": "error"}''
   \<and> statusCode (fst (lambda_handler get_event () store_up
         (holding (N (decimal_of_int (10 ^ 38 - 1)))))) = 500
   \<and> get_item_raises write_fails = None
   \<and> current_count write_fails (table fresh ''visitor_count'') = Inr 0
   \<and> serialize_item (new_item (0 + 1) (utcnow_1 write_fails) (utcnow_2 write_fails))
       = Inr [(''id'', S ''visitor_count''), (''count'', N (decimal_of_int 1)),
              (''last_updated'', S ''2024-05-01T12:00:00.000123''),
              (''timestamp'', N (decimal_of_int 1714564800))]
   \<and> put_item_raises write_fails = Some (Raised ''write refused'')
   \<and> body (fst (lambda_handler get_event () write_fails fresh))
       = ''{"error": "Internal server error", "message": "write refused", "status": "error"}''
   \<and> statusCode (fst (lambda_handler get_event () write_fails fresh)) = 500
   \<and> table (snd (lambda_handler get_event () write_fails fresh)) = Map.empty\<close>
proof -
  have h: "get_event ''httpMethod'' \<noteq> Some (PStr ''OPTIONS'')" by (simp add: get_event_def)
  have a: "get_item_raises store_down = Some (Raised ''store unavailable'')"
    by (simp add: store_down_def)
  have b: "get_item_raises store_up = None"
    "current_count store_up (table no_count ''visitor_count'') = Inl (KeyError ''count'')"
    by (simp_all add: store_up_def no_count_def current_count_def)
  have s: "current_count store_up (table (holding (N (decimal_of_int (10 ^ 38 - 1)))) ''visitor_count'')
       = Inr (10 ^ 38 - 1)"
    "serialize_item (new_item (10 ^ 38 - 1 + 1) (utcnow_1 store_up) (utcnow_2 store_up))
       = Inl Rounded"
    by (simp_all add: holding_def current_count_def py_int_def int_of_decimal_of_int new_item_def
        serialize_n_def nat_digits.simps)
  have c: "get_item_raises write_fails = None"
    "current_count write_fails (table fresh ''visitor_count'') = Inr 0"
    "serialize_item (new_item (0 + 1) (utcnow_1 write_fails) (utcnow_2 write_fails))
       = Inr [(''id'', S ''visitor_count''), (''count'', N (decimal_of_int 1)),
              (''last_updated'', S ''2024-05-01T12:00:00.000123''),
              (''timestamp'', N (decimal_of_int 1714564800))]"
    "put_item_raises write_fails = Some (Raised ''write refused'')"
    by (simp_all add: write_fails_def store_up_def fresh_def current_count_def new_item_def
        clock_a_def clock_b_def serialize_n_def nat_digits.simps)
  from h a
    every_failure_is_the_same_500 [of get_event store_down "Raised ''store unavailable''" fresh 0 "[]" "()"]
  have ra: \<open>body (fst (lambda_handler get_event () store_down fresh))
       = ''{"error": "Internal server error", "message": "store unavailable", "status": "error"}''\<close>
    "statusCode (fst (lambda_handler get_event () store_down fresh)) = 500"
    by (simp_all add: eval_json)
  from h b
    every_failure_is_the_same_500 [of get_event store_up "KeyError ''count''" no_count 0 "[]" "()"]
  have rb: \<open>body (fst (lambda_handler get_event () store_up no_count))
       = ''{"error": "Internal server error", "message": "'count'", "status": "error"}''\<close>
    "statusCode (fst (lambda_handler get_event () store_up no_count)) = 500"
    "printed (snd (lambda_handler get_event () store_up no_count))
       = [''Error: '' @ [CHR 0x27] @ ''count'' @ [CHR 0x27]]"
    by (simp_all add: eval_json no_count_def)
  from h b(1) s
    every_failure_is_the_same_500 [of get_event store_up Rounded
      "holding (N (decimal_of_int (10 ^ 38 - 1)))" "10 ^ 38 - 1" "[]" "()"]
  have rs: \<open>body (fst (lambda_handler get_event () store_up (holding (N (decimal_of_int (10 ^ 38 - 1))))))
       = ''{"error": "Internal server error", "message": "[<class 'decimal.Rounded'>]", "status": "error"}''\<close>
    "statusCode (fst (lambda_handler get_event () store_up
         (holding (N (decimal_of_int (10 ^ 38 - 1)))))) = 500"
    by (simp_all add: eval_json)
  from h c
    every_failure_is_the_same_500 [of get_event write_fails "Raised ''write refused''" fresh 0
      "[(''id'', S ''visitor_count''), (''count'', N (decimal_of_int 1)),
        (''last_updated'', S ''2024-05-01T12:00:00.000123''),
        (''timestamp'', N (decimal_of_int 1714564800))]" "()"]
  have rc: \<open>body (fst (lambda_handler get_event () write_fails fresh))
       = ''{"error": "Internal server error", "message": "write refused", "status": "error"}''\<close>
    "statusCode (fst (lambda_handler get_event () write_fails fresh)) = 500"
    "table (snd (lambda_handler get_event () write_fails fresh)) = Map.empty"
    by (simp_all add: eval_json fresh_def)
  from h a b s c ra rb rs rc show ?thesis by (simp only:) simp
qed

text \<open>The two ways a request that is not a preflight gets through or is stopped at the write.\<close>

lemma lambda_handler_success:
  assumes "event ''httpMethod'' \<noteq> Some (PStr ''OPTIONS'')" and "get_item_raises e = None"
    and "current_count e (table w ''visitor_count'') = Inr cur"
    and "\<bar>cur + 1\<bar> < 10 ^ 38" and "\<bar>timestamp (utcnow_2 e)\<bar> < 10 ^ 38"
    and "put_item_raises e = None"
  shows "lambda_handler event ctx e w =
    (success_response (cur + 1) (isoformat (utcnow_3 e)),
     w\<lparr>calls := calls w @ [Get_item ''visitor_count'',
             Put_item ''visitor_count'' (new_item (cur + 1) (utcnow_1 e) (utcnow_2 e))],
       table := (table w)(''visitor_count'' \<mapsto> written (cur + 1) (utcnow_1 e) (utcnow_2 e))\<rparr>)"
  using assms by (simp add: lambda_handler_def try_body_success)

lemma lambda_handler_serialize_raises:
  assumes "event ''httpMethod'' \<noteq> Some (PStr ''OPTIONS'')" and "get_item_raises e = None"
    and "current_count e (table w ''visitor_count'') = Inr cur"
    and "serialize_item (new_item (cur + 1) (utcnow_1 e) (utcnow_2 e)) = Inl x"
  shows "lambda_handler event ctx e w =
    (error_response (str_exn x),
     w\<lparr>calls := calls w @ [Get_item ''visitor_count'',
             Put_item ''visitor_count'' (new_item (cur + 1) (utcnow_1 e) (utcnow_2 e))],
       printed := printed w @ [''Error: '' @ str_exn x]\<rparr>)"
  using assms by (simp add: lambda_handler_def try_body_serialize_raises)

lemma stored_number_count:
  "current_count e (table (holding (N d)) ''visitor_count'') = Inr (int_of_decimal d)"
  by (simp add: holding_def current_count_def py_int_def)

lemma sample_clock:
  "utcnow_1 store_up = clock_a" "utcnow_2 store_up = clock_b" "utcnow_3 store_up = clock_c"
  "isoformat clock_a = ''2024-05-01T12:00:00.000123''" "timestamp clock_b = 1714564800"
  "isoformat clock_c = ''2024-05-01T12:00:00.048210''"
  "get_item_raises store_up = None" "put_item_raises store_up = None"
  by (simp_all add: store_up_def clock_a_def clock_b_def clock_c_def)

lemma limit_is_refused:
  "serialize_item (new_item (10 ^ 38) t1 t2) = Inl Rounded"
  by (simp add: new_item_def serialize_n_def nat_digits.simps)

subsection \<open>Events without a method\<close>

text \<open>
  C8. For every event whose \<^verbatim>\<open>httpMethod\<close> is missing or is anything but the string
  \<^verbatim>\<open>OPTIONS\<close>, the lookup does not raise and the handler does exactly what it does
  for a \<^verbatim>\<open>GET\<close> and for a \<^verbatim>\<open>POST\<close> request: it takes the counter path. Its first
  step is the \<^verbatim>\<open>get_item\<close> on \<^verbatim>\<open>visitor_count\<close>; and when the read returns a
  count \<open>cur\<close> and the write of \<open>cur + 1\<close> goes through, the answer is the success
  response with \<^verbatim>\<open>visitor_count\<close> \<open>cur + 1\<close>, the store was called twice, the read and
  the \<^verbatim>\<open>put_item\<close> of the item with count \<open>cur + 1\<close>, and the table holds that record.
\<close>

theorem missing_method_counts:
  assumes "event ''httpMethod'' \<noteq> Some (PStr ''OPTIONS'')"
  shows "lambda_handler event ctx e w = lambda_handler get_event ctx1 e w
       \<and> lambda_handler event ctx e w = lambda_handler post_event ctx2 e w
       \<and> (\<exists>cs. calls (snd (lambda_handler event ctx e w)) = calls w @ Get_item ''visitor_count'' # cs)
       \<and> (get_item_raises e = None \<and> current_count e (table w ''visitor_count'') = Inr cur
            \<and> \<bar>cur + 1\<bar> < 10 ^ 38 \<and> \<bar>timestamp (utcnow_2 e)\<bar> < 10 ^ 38
            \<and> put_item_raises e = None \<longrightarrow>
          lambda_handler event ctx e w =
          (\<lparr>statusCode = 200,
            headers = [(''Access-Control-Allow-Origin'', ''*''),
                       (''Access-Control-Allow-Headers'', ''Content-Type''),
                       (''Access-Control-Allow-Methods'', ''GET, POST, OPTIONS''),
                       (''Content-Type'', ''application/json'')],
            body = json_dumps [(''visitor_count'', JInt (cur + 1)),
                               (''timestamp'', JStr (isoformat (utcnow_3 e))),
                               (''status'', JStr ''success'')]\<rparr>,
           w\<lparr>calls := calls w @ [Get_item ''visitor_count'',
                  Put_item ''visitor_count''
                   [(''id'', JStr ''visitor_count''),
                    (''count'', JInt (cur + 1)),
                    (''last_updated'', JStr (isoformat (utcnow_1 e))),
                    (''timestamp'', JInt (timestamp (utcnow_2 e)))]],
             table := (table w)(''visitor_count'' \<mapsto>
                  [''id'' \<mapsto> S ''visitor_count'',
                   ''count'' \<mapsto> N (decimal_of_int (cur + 1)),
                   ''last_updated'' \<mapsto> S (isoformat (utcnow_1 e)),
                   ''timestamp'' \<mapsto> N (decimal_of_int (timestamp (utcnow_2 e)))])\<rparr>))"
proof -
  have "try_body event e w = try_body get_event e w" "try_body event e w = try_body post_event e w"
    using assms by (simp_all add: try_body_def get_event_def post_event_def)
  then have same: "lambda_handler event ctx e w = lambda_handler get_event ctx1 e w"
    "lambda_handler event ctx e w = lambda_handler post_event ctx2 e w"
    by (simp_all add: lambda_handler_def)
  have first: "\<exists>cs. calls (snd (lambda_handler event ctx e w)) = calls w @ Get_item ''visitor_count'' # cs"
    using assms
    by (auto simp add: lambda_handler_def try_body_def get_item_def put_item_def Let_def
        split: option.splits sum.splits)
  have path: "lambda_handler event ctx e w =
          (\<lparr>statusCode = 200,
            headers = [(''Access-Control-Allow-Origin'', ''*''),
                       (''Access-Control-Allow-Headers'', ''Content-Type''),
                       (''Access-Control-Allow-Methods'', ''GET, POST, OPTIONS''),
                       (''Content-Type'', ''application/json'')],
            body = json_dumps [(''visitor_count'', JInt (cur + 1)),
                               (''timestamp'', JStr (isoformat (utcnow_3 e))),
                               (''status'', JStr ''success'')]\<rparr>,
           w\<lparr>calls := calls w @ [Get_item ''visitor_count'',
                  Put_item ''visitor_count''
                   [(''id'', JStr ''visitor_count''),
                    (''count'', JInt (cur + 1)),
                    (''last_updated'', JStr (isoformat (utcnow_1 e))),
                    (''timestamp'', JInt (timestamp (utcnow_2 e)))]],
             table := (table w)(''visitor_count'' \<mapsto>
                  [''id'' \<mapsto> S ''visitor_count'',
                   ''count'' \<mapsto> N (decimal_of_int (cur + 1)),
                   ''last_updated'' \<mapsto> S (isoformat (utcnow_1 e)),
                   ''timestamp'' \<mapsto> N (decimal_of_int (timestamp (utcnow_2 e)))])\<rparr>)"
    if "get_item_raises e = None" "current_count e (table w ''visitor_count'') = Inr cur"
      "\<bar>cur + 1\<bar> < 10 ^ 38" "\<bar>timestamp (utcnow_2 e)\<bar> < 10 ^ 38" "put_item_raises e = None"
    using assms that
    by (simp add: lambda_handler_success success_response_def new_item_def written_def)
  from same first path show ?thesis by blast
qed

theorem missing_method_counts_witness:
  \<open>(Map.empty :: event) ''httpMethod'' \<noteq> Some (PStr ''OPTIONS'')
   \<and> lambda_handler Map.empty () store_up fresh = lambda_handler get_event () store_up fresh
   \<and> lambda_handler Map.empty () store_up fresh = lambda_handler post_event () store_up fresh
   \<and> get_item_raises store_up = None
   \<and> current_count store_up (table fresh ''visitor_count'') = Inr 0
   \<and> \<bar>0 + 1\<bar> < (10 :: int) ^ 38 \<and> \<bar>timestamp (utcnow_2 store_up)\<bar> < 10 ^ 38
   \<and> put_item_raises store_up = None
   \<and> body (fst (lambda_handler Map.empty () store_up fresh))
       = ''{"visitor_count": 1, "timestamp": "2024-05-01T12:00:00.048210", "status": "success"}''
   \<and> statusCode (fst (lambda_handler Map.empty () store_up fresh)) = 200
   \<and> calls (snd (lambda_handler Map.empty () store_up fresh))
       = [Get_item ''visitor_count'',
          Put_item ''visitor_count''
           [(''id'', JStr ''visitor_count''), (''count'', JInt 1),
            (''last_updated'', JStr ''2024-05-01T12:00:00.000123''),
            (''timestamp'', JInt 1714564800)]]
   \<and> table (snd (lambda_handler Map.empty () store_up fresh)) ''visitor_count''
       = Some [''id'' \<mapsto> S ''visitor_count'', ''count'' \<mapsto> N (decimal_of_int 1),
            ''last_updated'' \<mapsto> S ''2024-05-01T12:00:00.000123'',
            ''timestamp'' \<mapsto> N (decimal_of_int 1714564800)]\<close>
proof -
  have h: "(Map.empty :: event) ''httpMethod'' \<noteq> Some (PStr ''OPTIONS'')"
    by simp
  have g: "get_item_raises store_up = None"
    "current_count store_up (table fresh ''visitor_count'') = Inr 0"
    "\<bar>0 + 1\<bar> < (10 :: int) ^ 38" "\<bar>timestamp (utcnow_2 store_up)\<bar> < 10 ^ 38"
    "put_item_raises store_up = None"
    by (simp_all add: sample_clock fresh_def current_count_def)
  from h missing_method_counts [of Map.empty "()" store_up fresh "()" "()" 0]
  have same: "lambda_handler Map.empty () store_up fresh = lambda_handler get_event () store_up fresh"
    "lambda_handler Map.empty () store_up fresh = lambda_handler post_event () store_up fresh"
    by blast+
  from h g missing_method_counts [of Map.empty "()" store_up fresh "()" "()" 0]
  have run: "lambda_handler Map.empty () store_up fresh =
          (\<lparr>statusCode = 200,
            headers = [(''Access-Control-Allow-Origin'', ''*''),
                       (''Access-Control-Allow-Headers'', ''Content-Type''),
                       (''Access-Control-Allow-Methods'', ''GET, POST, OPTIONS''),
                       (''Content-Type'', ''application/json'')],
            body = json_dumps [(''visitor_count'', JInt (0 + 1)),
                               (''timestamp'', JStr (isoformat (utcnow_3 store_up))),
                               (''status'', JStr ''success'')]\<rparr>,
           fresh\<lparr>calls := calls fresh @ [Get_item ''visitor_count'',
                  Put_item ''visitor_count''
                   [(''id'', JStr ''visitor_count''),
                    (''count'', JInt (0 + 1)),
                    (''last_updated'', JStr (isoformat (utcnow_1 store_up))),
                    (''timestamp'', JInt (timestamp (utcnow_2 store_up)))]],
             table := (table fresh)(''visitor_count'' \<mapsto>
                  [''id'' \<mapsto> S ''visitor_count'',
                   ''count'' \<mapsto> N (decimal_of_int (0 + 1)),
                   ''last_updated'' \<mapsto> S (isoformat (utcnow_1 store_up)),
                   ''timestamp'' \<mapsto> N (decimal_of_int (timestamp (utcnow_2 store_up)))])\<rparr>)"
    by blast
  have out: \<open>body (fst (lambda_handler Map.empty () store_up fresh))
       = ''{"visitor_count": 1, "timestamp": "2024-05-01T12:00:00.048210", "status": "success"}''\<close>
    "statusCode (fst (lambda_handler Map.empty () store_up fresh)) = 200"
    "calls (snd (lambda_handler Map.empty () store_up fresh))
       = [Get_item ''visitor_count'',
          Put_item ''visitor_count''
           [(''id'', JStr ''visitor_count''), (''count'', JInt 1),
            (''last_updated'', JStr ''2024-05-01T12:00:00.000123''),
            (''timestamp'', JInt 1714564800)]]"
    "table (snd (lambda_handler Map.empty () store_up fresh)) ''visitor_count''
       = Some [''id'' \<mapsto> S ''visitor_count'', ''count'' \<mapsto> N (decimal_of_int 1),
            ''last_updated'' \<mapsto> S ''2024-05-01T12:00:00.000123'',
            ''timestamp'' \<mapsto> N (decimal_of_int 1714564800)]"
    unfolding run by (simp_all add: sample_clock fresh_def eval_json)
  from h g same out show ?thesis by (simp only:) simp
qed

subsection \<open>Counts below zero\<close>

text \<open>
  At a stored count of \<open>10^38 - 1\<close>, a number DynamoDB holds, the new count has 39 digits:
  the serializer refuses it and the request is answered 500 with the store up.
\<close>

theorem count_at_limit_counterexample:
  \<open>statusCode (fst (lambda_handler get_event () store_up
       (holding (N (decimal_of_int (10 ^ 38 - 1)))))) = 500
   \<and> body (fst (lambda_handler get_event () store_up
       (holding (N (decimal_of_int (10 ^ 38 - 1))))))
     = ''{"error": "Internal server error", "message": "[<class 'decimal.Rounded'>]", "status": "error"}''
   \<and> table (snd (lambda_handler get_event () store_up
       (holding (N (decimal_of_int (10 ^ 38 - 1))))))
     = table (holding (N (decimal_of_int (10 ^ 38 - 1))))\<close>
proof -
  have next_count: "(10::int) ^ 38 - 1 + 1 = 10 ^ 38" by simp
  have "lambda_handler get_event () store_up (holding (N (decimal_of_int (10 ^ 38 - 1)))) =
    (error_response (str_exn Rounded),
     (holding (N (decimal_of_int (10 ^ 38 - 1))))
       \<lparr>calls := calls (holding (N (decimal_of_int (10 ^ 38 - 1)))) @ [Get_item ''visitor_count'',
             Put_item ''visitor_count''
               (new_item (10 ^ 38 - 1 + 1) (utcnow_1 store_up) (utcnow_2 store_up))],
         printed := printed (holding (N (decimal_of_int (10 ^ 38 - 1))))
             @ [''Error: '' @ str_exn Rounded]\<rparr>)"
  proof (rule lambda_handler_serialize_raises)
    show "get_event ''httpMethod'' \<noteq> Some (PStr ''OPTIONS'')" by (simp add: get_event_def)
    show "get_item_raises store_up = None" by (simp add: sample_clock)
    show "current_count store_up
        (table (holding (N (decimal_of_int (10 ^ 38 - 1)))) ''visitor_count'') = Inr (10 ^ 38 - 1)"
      by (simp only: stored_number_count int_of_decimal_of_int)
    show "serialize_item (new_item (10 ^ 38 - 1 + 1) (utcnow_1 store_up) (utcnow_2 store_up))
        = Inl Rounded"
      by (simp only: next_count limit_is_refused)
  qed
  then show ?thesis
    by (simp add: error_response_def eval_json)
qed

text \<open>
  C9, amended. The handler does not check the sign of the stored count: for every stored
  integer \<open>c\<close>, negative ones included, whose successor \<open>c + 1\<close> has at most 38 digits, a
  request that is not a preflight (the store working) succeeds with \<^verbatim>\<open>visitor_count\<close>
  \<open>c + 1\<close> and leaves a record whose count is \<open>c + 1\<close>.
\<close>

theorem negative_count_accepted:
  assumes "event ''httpMethod'' \<noteq> Some (PStr ''OPTIONS'')"
    and "get_item_raises e = None" and "put_item_raises e = None"
    and "table w ''visitor_count'' = Some it" and "it ''count'' = Some (N (decimal_of_int c))"
    and "\<bar>c + 1\<bar> < 10 ^ 38" and "\<bar>timestamp (utcnow_2 e)\<bar> < 10 ^ 38"
  shows "fst (lambda_handler event ctx e w) =
           \<lparr>statusCode = 200,
            headers = [(''Access-Control-Allow-Origin'', ''*''),
                       (''Access-Control-Allow-Headers'', ''Content-Type''),
                       (''Access-Control-Allow-Methods'', ''GET, POST, OPTIONS''),
                       (''Content-Type'', ''application/json'')],
            body = json_dumps [(''visitor_count'', JInt (c + 1)),
                               (''timestamp'', JStr (isoformat (utcnow_3 e))),
                               (''status'', JStr ''success'')]\<rparr>
       \<and> table (snd (lambda_handler event ctx e w)) ''visitor_count'' =
           Some [''id'' \<mapsto> S ''visitor_count'',
                 ''count'' \<mapsto> N (decimal_of_int (c + 1)),
                 ''last_updated'' \<mapsto> S (isoformat (utcnow_1 e)),
                 ''timestamp'' \<mapsto> N (decimal_of_int (timestamp (utcnow_2 e)))]"
proof -
  have "current_count e (table w ''visitor_count'') = Inr c"
    using assms(4,5) by (simp add: current_count_def py_int_def int_of_decimal_of_int)
  with assms(1-3,6,7) show ?thesis
    by (simp add: lambda_handler_success success_response_def written_def)
qed

theorem negative_count_accepted_witness:
  \<open>get_event ''httpMethod'' \<noteq> Some (PStr ''OPTIONS'')
   \<and> get_item_raises store_up = None \<and> put_item_raises store_up = None
   \<and> table (holding (N (decimal_of_int (- 3)))) ''visitor_count''
        = Some [''id'' \<mapsto> S ''visitor_count'', ''count'' \<mapsto> N (decimal_of_int (- 3))]
   \<and> \<bar>- 3 + 1\<bar> < (10 :: int) ^ 38 \<and> \<bar>timestamp (utcnow_2 store_up)\<bar> < 10 ^ 38
   \<and> body (fst (lambda_handler get_event () store_up (holding (N (decimal_of_int (- 3))))))
        = ''{"visitor_count": -2, "timestamp": "2024-05-01T12:00:00.048210", "status": "success"}''
   \<and> statusCode (fst (lambda_handler get_event () store_up (holding (N (decimal_of_int (- 3)))))) = 200
   \<and> table (snd (lambda_handler get_event () store_up (holding (N (decimal_of_int (- 3))))))
         ''visitor_count''
        = Some [''id'' \<mapsto> S ''visitor_count'', ''count'' \<mapsto> N (Decimal True 2 0),
                ''last_updated'' \<mapsto> S ''2024-05-01T12:00:00.000123'',
                ''timestamp'' \<mapsto> N (Decimal False 1714564800 0)]\<close>
proof -
  have h: "get_event ''httpMethod'' \<noteq> Some (PStr ''OPTIONS'')"
    "get_item_raises store_up = None" "put_item_raises store_up = None"
    "table (holding (N (decimal_of_int (- 3)))) ''visitor_count''
        = Some [''id'' \<mapsto> S ''visitor_count'', ''count'' \<mapsto> N (decimal_of_int (- 3))]"
    "\<bar>- 3 + 1\<bar> < (10 :: int) ^ 38" "\<bar>timestamp (utcnow_2 store_up)\<bar> < 10 ^ 38"
    by (simp_all add: get_event_def sample_clock holding_def)
  from h negative_count_accepted [of get_event store_up "holding (N (decimal_of_int (- 3)))"
      "[''id'' \<mapsto> S ''visitor_count'', ''count'' \<mapsto> N (decimal_of_int (- 3))]" "- 3" "()"]
  have out: "fst (lambda_handler get_event () store_up (holding (N (decimal_of_int (- 3))))) =
           \<lparr>statusCode = 200,
            headers = [(''Access-Control-Allow-Origin'', ''*''),
                       (''Access-Control-Allow-Headers'', ''Content-Type''),
                       (''Access-Control-Allow-Methods'', ''GET, POST, OPTIONS''),
                       (''Content-Type'', ''application/json'')],
            body = json_dumps [(''visitor_count'', JInt (- 3 + 1)),
                               (''timestamp'', JStr (isoformat (utcnow_3 store_up))),
                               (''status'', JStr ''success'')]\<rparr>"
    "table (snd (lambda_handler get_event () store_up (holding (N (decimal_of_int (- 3))))))
         ''visitor_count'' =
           Some [''id'' \<mapsto> S ''visitor_count'',
                 ''count'' \<mapsto> N (decimal_of_int (- 3 + 1)),
                 ''last_updated'' \<mapsto> S (isoformat (utcnow_1 store_up)),
                 ''timestamp'' \<mapsto> N (decimal_of_int (timestamp (utcnow_2 store_up)))]"
    by simp_all
  have shown: \<open>body (fst (lambda_handler get_event () store_up (holding (N (decimal_of_int (- 3))))))
        = ''{"visitor_count": -2, "timestamp": "2024-05-01T12:00:00.048210", "status": "success"}''\<close>
    "statusCode (fst (lambda_handler get_event () store_up (holding (N (decimal_of_int (- 3)))))) = 200"
    "table (snd (lambda_handler get_event () store_up (holding (N (decimal_of_int (- 3))))))
         ''visitor_count''
        = Some [''id'' \<mapsto> S ''visitor_count'', ''count'' \<mapsto> N (Decimal True 2 0),
                ''last_updated'' \<mapsto> S ''2024-05-01T12:00:00.000123'',
                ''timestamp'' \<mapsto> N (Decimal False 1714564800 0)]"
    unfolding out by (simp_all add: sample_clock decimal_of_int_def eval_json)
  from h shown show ?thesis by (simp only:) simp
qed

subsection \<open>Invocations in sequence\<close>

lemma counted_current_count:
  "counted m w \<Longrightarrow> current_count e (table w ''visitor_count'') = Inr m"
  by (auto simp add: counted_def current_count_def py_int_def int_of_decimal_of_int
      split: option.splits)

lemma counted_fresh: "table w = Map.empty \<Longrightarrow> counted 0 w"
  by (simp add: counted_def)

lemma counted_step:
  assumes "counted m w" and "counter_request event" and "store_works e"
    and "\<bar>m + 1\<bar> < 10 ^ 38" and "\<bar>timestamp (utcnow_2 e)\<bar> < 10 ^ 38"
  shows "fst (lambda_handler event ctx e w) = success_response (m + 1) (isoformat (utcnow_3 e))"
    and "table (snd (lambda_handler event ctx e w))
           = [''visitor_count'' \<mapsto> written (m + 1) (utcnow_1 e) (utcnow_2 e)]"
    and "counted (m + 1) (snd (lambda_handler event ctx e w))"
proof -
  have cur: "current_count e (table w ''visitor_count'') = Inr m"
    using assms(1) by (rule counted_current_count)
  have run: "lambda_handler event ctx e w =
    (success_response (m + 1) (isoformat (utcnow_3 e)),
     w\<lparr>calls := calls w @ [Get_item ''visitor_count'',
             Put_item ''visitor_count'' (new_item (m + 1) (utcnow_1 e) (utcnow_2 e))],
       table := (table w)(''visitor_count'' \<mapsto> written (m + 1) (utcnow_1 e) (utcnow_2 e))\<rparr>)"
    using assms(2-5) cur
    by (simp add: lambda_handler_success counter_request_def store_works_def)
  show "fst (lambda_handler event ctx e w) = success_response (m + 1) (isoformat (utcnow_3 e))"
    by (simp add: run)
  have "dom (table w) \<subseteq> {''visitor_count''}"
    using assms(1) by (simp add: counted_def)
  then have "(table w)(''visitor_count'' \<mapsto> x) = [''visitor_count'' \<mapsto> x]" for x
    by (auto simp add: fun_eq_iff domIff subset_iff)
  then show tab: "table (snd (lambda_handler event ctx e w))
           = [''visitor_count'' \<mapsto> written (m + 1) (utcnow_1 e) (utcnow_2 e)]"
    by (simp add: run)
  show "counted (m + 1) (snd (lambda_handler event ctx e w))"
    by (simp add: counted_def tab written_count)
qed

lemma invocations_counted:
  assumes "counted m w" and "0 \<le> m" and "m + int (length reqs) < 10 ^ 38"
    and "\<forall>(event, ctx, e) \<in> set reqs.
           counter_request event \<and> store_works e \<and> \<bar>timestamp (utcnow_2 e)\<bar> < 10 ^ 38"
  shows "length (fst (invocations reqs w)) = length reqs
       \<and> (\<forall>k < length reqs. fst (invocations reqs w) ! k
             = success_response (m + int k + 1) (isoformat (utcnow_3 (snd (snd (reqs ! k))))))
       \<and> counted (m + int (length reqs)) (snd (invocations reqs w))
       \<and> (reqs \<noteq> [] \<longrightarrow> table (snd (invocations reqs w))
             = [''visitor_count'' \<mapsto> written (m + int (length reqs))
                  (utcnow_1 (snd (snd (last reqs)))) (utcnow_2 (snd (snd (last reqs))))])"
  using assms
proof (induction reqs arbitrary: m w)
  case Nil
  then show ?case by simp
next
  case (Cons req rest)
  obtain event ctx e where req: "req = (event, ctx, e)" by (cases req)
  from Cons.prems(4) req have good: "counter_request event" "store_works e"
      "\<bar>timestamp (utcnow_2 e)\<bar> < 10 ^ 38"
    and rest_good: "\<forall>(event, ctx, e) \<in> set rest.
           counter_request event \<and> store_works e \<and> \<bar>timestamp (utcnow_2 e)\<bar> < 10 ^ 38"
    by simp_all
  from Cons.prems(2,3) have fits: "\<bar>m + 1\<bar> < 10 ^ 38" and next_nonneg: "0 \<le> m + 1"
    and rest_fits: "m + 1 + int (length rest) < 10 ^ 38"
    by simp_all
  obtain r w1 where step: "lambda_handler event ctx e w = (r, w1)"
    by (cases "lambda_handler event ctx e w")
  from counted_step [OF Cons.prems(1) good(1,2) fits good(3), of ctx] step
  have r: "r = success_response (m + 1) (isoformat (utcnow_3 e))"
    and tab1: "table w1 = [''visitor_count'' \<mapsto> written (m + 1) (utcnow_1 e) (utcnow_2 e)]"
    and inv1: "counted (m + 1) w1"
    by simp_all
  obtain rs w2 where tail: "invocations rest w1 = (rs, w2)" by (cases "invocations rest w1")
  note ih = Cons.IH [OF inv1 next_nonneg rest_fits rest_good, unfolded tail fst_conv snd_conv]
  from ih
  have len: "length rs = length rest"
    and nth: "\<forall>k < length rest. rs ! k
        = success_response (m + 1 + int k + 1) (isoformat (utcnow_3 (snd (snd (rest ! k)))))"
    and inv2: "counted (m + 1 + int (length rest)) w2"
    and tab2: "rest \<noteq> [] \<longrightarrow> table w2
        = [''visitor_count'' \<mapsto> written (m + 1 + int (length rest))
             (utcnow_1 (snd (snd (last rest)))) (utcnow_2 (snd (snd (last rest))))]"
    by blast+
  have whole: "invocations (req # rest) w = (r # rs, w2)"
    by (simp add: req step tail)
  have "\<forall>k < length (req # rest). (r # rs) ! k
        = success_response (m + int k + 1) (isoformat (utcnow_3 (snd (snd ((req # rest) ! k)))))"
  proof (intro allI impI)
    fix k assume "k < length (req # rest)"
    then show "(r # rs) ! k
        = success_response (m + int k + 1) (isoformat (utcnow_3 (snd (snd ((req # rest) ! k)))))"
      using r nth req by (cases k) (simp_all add: algebra_simps)
  qed
  moreover have "counted (m + int (length (req # rest))) w2"
    using inv2 by (simp add: algebra_simps)
  moreover have "table w2 = [''visitor_count'' \<mapsto> written (m + int (length (req # rest)))
        (utcnow_1 (snd (snd (last (req # rest))))) (utcnow_2 (snd (snd (last (req # rest)))))]"
  proof (cases "rest = []")
    case True
    with tail have "w2 = w1" by simp
    with True tab1 req show ?thesis by simp
  next
    case False
    with tab2 show ?thesis by (simp add: algebra_simps)
  qed
  ultimately show ?case using len by (simp add: whole)
qed

text \<open>
  C1. Starting from an empty table, let fewer than \<open>10^38\<close> requests, none of them a
  preflight, be handled one after the other with the store working. Then the response to
  request number \<open>k + 1\<close> (position \<open>k\<close> of the list) is the success response whose body
  has \<^verbatim>\<open>visitor_count\<close> \<open>k + 1\<close>, and after that request the table holds exactly one
  record, under \<^verbatim>\<open>visitor_count\<close>, which is the whole item written by that request,
  with count \<open>k + 1\<close>.
\<close>

theorem sequential_counts:
  assumes "table w0 = Map.empty"
    and "\<forall>(event, ctx, e) \<in> set reqs.
           counter_request event \<and> store_works e \<and> \<bar>timestamp (utcnow_2 e)\<bar> < 10 ^ 38"
    and "k < length reqs" and "int (length reqs) < 10 ^ 38"
  shows "fst (invocations reqs w0) ! k =
           \<lparr>statusCode = 200,
            headers = [(''Access-Control-Allow-Origin'', ''*''),
                       (''Access-Control-Allow-Headers'', ''Content-Type''),
                       (''Access-Control-Allow-Methods'', ''GET, POST, OPTIONS''),
                       (''Content-Type'', ''application/json'')],
            body = json_dumps [(''visitor_count'', JInt (int k + 1)),
                               (''timestamp'', JStr (isoformat (utcnow_3 (snd (snd (reqs ! k)))))),
                               (''status'', JStr ''success'')]\<rparr>
       \<and> table (snd (invocations (take (Suc k) reqs) w0)) =
           [''visitor_count'' \<mapsto>
             [''id'' \<mapsto> S ''visitor_count'',
              ''count'' \<mapsto> N (decimal_of_int (int k + 1)),
              ''last_updated'' \<mapsto> S (isoformat (utcnow_1 (snd (snd (reqs ! k))))),
              ''timestamp'' \<mapsto> N (decimal_of_int (timestamp (utcnow_2 (snd (snd (reqs ! k))))))]]"
proof -
  have start: "counted 0 w0" using assms(1) by (rule counted_fresh)
  have fits: "0 + int (length reqs) < 10 ^ 38" using assms(4) by simp
  from invocations_counted [OF start order_refl fits assms(2)] assms(3)
  have first: "fst (invocations reqs w0) ! k
           = success_response (int k + 1) (isoformat (utcnow_3 (snd (snd (reqs ! k)))))"
    by simp
  let ?pre = "take (Suc k) reqs"
  have pre_good: "\<forall>(event, ctx, e) \<in> set ?pre.
           counter_request event \<and> store_works e \<and> \<bar>timestamp (utcnow_2 e)\<bar> < 10 ^ 38"
    using assms(2) by (meson in_set_takeD)
  have pre_shape: "?pre \<noteq> []" "length ?pre = Suc k" "last ?pre = reqs ! k"
    using assms(3) by (auto simp add: take_Suc_conv_app_nth)
  have pre_fits: "0 + int (length ?pre) < 10 ^ 38"
    using assms(3,4) by simp
  from invocations_counted [OF start order_refl pre_fits pre_good] pre_shape
  have "table (snd (invocations ?pre w0))
           = [''visitor_count'' \<mapsto> written (int k + 1)
                (utcnow_1 (snd (snd (reqs ! k)))) (utcnow_2 (snd (snd (reqs ! k))))]"
    by (simp add: add.commute)
  with first show ?thesis by (simp add: success_response_def written_def)
qed

theorem sequential_counts_witness:
  \<open>table fresh = Map.empty
   \<and> counter_request get_event \<and> counter_request post_event \<and> counter_request Map.empty
   \<and> store_works store_up \<and> \<bar>timestamp (utcnow_2 store_up)\<bar> < 10 ^ 38
   \<and> 2 < length three_requests \<and> int (length three_requests) < 10 ^ 38
   \<and> statusCode (fst (invocations three_requests fresh) ! 2) = 200
   \<and> body (fst (invocations three_requests fresh) ! 2)
       = ''{"visitor_count": 3, "timestamp": "2024-05-01T12:00:00.048210", "status": "success"}''
   \<and> table (snd (invocations (take 3 three_requests) fresh))
       = [''visitor_count'' \<mapsto>
            [''id'' \<mapsto> S ''visitor_count'', ''count'' \<mapsto> N (decimal_of_int 3),
             ''last_updated'' \<mapsto> S ''2024-05-01T12:00:00.000123'',
             ''timestamp'' \<mapsto> N (decimal_of_int 1714564800)]]\<close>
proof -
  have h1: "table fresh = Map.empty" by (simp add: fresh_def)
  have good: "counter_request get_event" "counter_request post_event"
    "counter_request Map.empty" "store_works store_up"
    "\<bar>timestamp (utcnow_2 store_up)\<bar> < 10 ^ 38"
    by (simp_all add: counter_request_def get_event_def post_event_def store_works_def
        sample_clock)
  then have h2: "\<forall>(event, ctx, e) \<in> set three_requests.
           counter_request event \<and> store_works e \<and> \<bar>timestamp (utcnow_2 e)\<bar> < 10 ^ 38"
    by (simp add: three_requests_def)
  have h3: "2 < length three_requests" "int (length three_requests) < 10 ^ 38"
    by (simp_all add: three_requests_def)
  have pick: "snd (snd (three_requests ! 2)) = store_up" by (simp add: three_requests_def)
  from sequential_counts [OF h1 h2 h3]
  have out: "fst (invocations three_requests fresh) ! 2 =
           \<lparr>statusCode = 200,
            headers = [(''Access-Control-Allow-Origin'', ''*''),
                       (''Access-Control-Allow-Headers'', ''Content-Type''),
                       (''Access-Control-Allow-Methods'', ''GET, POST, OPTIONS''),
                       (''Content-Type'', ''application/json'')],
            body = json_dumps [(''visitor_count'', JInt (int 2 + 1)),
                               (''timestamp'', JStr (isoformat (utcnow_3 store_up))),
                               (''status'', JStr ''success'')]\<rparr>"
    "table (snd (invocations (take (Suc 2) three_requests) fresh)) =
           [''visitor_count'' \<mapsto>
             [''id'' \<mapsto> S ''visitor_count'',
              ''count'' \<mapsto> N (decimal_of_int (int 2 + 1)),
              ''last_updated'' \<mapsto> S (isoformat (utcnow_1 store_up)),
              ''timestamp'' \<mapsto> N (decimal_of_int (timestamp (utcnow_2 store_up)))]]"
    by (simp_all only: pick) 
  have three: "Suc 2 = 3" by simp
  have shown: "statusCode (fst (invocations three_requests fresh) ! 2) = 200"
    \<open>body (fst (invocations three_requests fresh) ! 2)
       = ''{"visitor_count": 3, "timestamp": "2024-05-01T12:00:00.048210", "status": "success"}''\<close>
    "table (snd (invocations (take 3 three_requests) fresh))
       = [''visitor_count'' \<mapsto>
            [''id'' \<mapsto> S ''visitor_count'', ''count'' \<mapsto> N (decimal_of_int 3),
             ''last_updated'' \<mapsto> S ''2024-05-01T12:00:00.000123'',
             ''timestamp'' \<mapsto> N (decimal_of_int 1714564800)]]"
    using out(2) unfolding out(1) three by (simp_all add: sample_clock eval_json)
  from h1 good h3 shown show ?thesis by ((simp only:); simp?)
qed

subsection \<open>Repeating a request\<close>

text \<open>
  At a stored count of \<open>10^38 - 2\<close> the first of two identical requests is answered
  \<open>10^38 - 1\<close>; the second is answered 500, its count of 39 digits being refused.
\<close>

theorem repeat_at_limit_counterexample:
  \<open>body (fst (lambda_handler get_event () store_up (holding (N (decimal_of_int (10 ^ 38 - 2))))))
     = ''{"visitor_count": 99999999999999999999999999999999999999, "timestamp": "2024-05-01T12:00:00.048210", "status": "success"}''
   \<and> statusCode (fst (lambda_handler get_event () store_up
        (snd (lambda_handler get_event () store_up (holding (N (decimal_of_int (10 ^ 38 - 2)))))))) = 500
   \<and> body (fst (lambda_handler get_event () store_up
        (snd (lambda_handler get_event () store_up (holding (N (decimal_of_int (10 ^ 38 - 2))))))))
     = ''{"error": "Internal server error", "message": "[<class 'decimal.Rounded'>]", "status": "error"}''\<close>
proof -
  let ?w = "holding (N (decimal_of_int (10 ^ 38 - 2)))"
  have eq2: "(10::int) ^ 38 - 1 + 1 = 10 ^ 38" by simp
  have m: "get_event ''httpMethod'' \<noteq> Some (PStr ''OPTIONS'')" by (simp add: get_event_def)
  have one: "lambda_handler get_event () store_up ?w =
    (success_response (10 ^ 38 - 2 + 1) (isoformat (utcnow_3 store_up)),
     ?w\<lparr>calls := calls ?w @ [Get_item ''visitor_count'',
             Put_item ''visitor_count''
               (new_item (10 ^ 38 - 2 + 1) (utcnow_1 store_up) (utcnow_2 store_up))],
       table := (table ?w)(''visitor_count'' \<mapsto>
             written (10 ^ 38 - 2 + 1) (utcnow_1 store_up) (utcnow_2 store_up))\<rparr>)"
  proof (rule lambda_handler_success)
    show "get_event ''httpMethod'' \<noteq> Some (PStr ''OPTIONS'')" by (rule m)
    show "get_item_raises store_up = None" by (simp add: sample_clock)
    show "current_count store_up (table ?w ''visitor_count'') = Inr (10 ^ 38 - 2)"
      by (simp only: stored_number_count int_of_decimal_of_int)
    show "\<bar>10 ^ 38 - 2 + 1\<bar> < (10::int) ^ 38" by simp
    show "\<bar>timestamp (utcnow_2 store_up)\<bar> < 10 ^ 38" by (simp add: sample_clock)
    show "put_item_raises store_up = None" by (simp add: sample_clock)
  qed
  define w1 where "w1 = snd (lambda_handler get_event () store_up ?w)"
  have cur1: "current_count store_up (table w1 ''visitor_count'') = Inr (10 ^ 38 - 1)"
    unfolding w1_def one
    by (simp add: current_count_def written_count py_int_def int_of_decimal_of_int)
  have two: "lambda_handler get_event () store_up w1 =
    (error_response (str_exn Rounded),
     w1\<lparr>calls := calls w1 @ [Get_item ''visitor_count'',
             Put_item ''visitor_count''
               (new_item (10 ^ 38 - 1 + 1) (utcnow_1 store_up) (utcnow_2 store_up))],
        printed := printed w1 @ [''Error: '' @ str_exn Rounded]\<rparr>)"
  proof (rule lambda_handler_serialize_raises)
    show "get_event ''httpMethod'' \<noteq> Some (PStr ''OPTIONS'')" by (rule m)
    show "get_item_raises store_up = None" by (simp add: sample_clock)
    show "current_count store_up (table w1 ''visitor_count'') = Inr (10 ^ 38 - 1)" by (rule cur1)
    show "serialize_item (new_item (10 ^ 38 - 1 + 1) (utcnow_1 store_up) (utcnow_2 store_up))
        = Inl Rounded"
      by (simp only: eq2 limit_is_refused)
  qed
  have first: \<open>body (fst (lambda_handler get_event () store_up ?w))
     = ''{"visitor_count": 99999999999999999999999999999999999999, "timestamp": "2024-05-01T12:00:00.048210", "status": "success"}''\<close>
    unfolding one by (simp add: success_response_def sample_clock eval_json)
  have second: "statusCode (fst (lambda_handler get_event () store_up w1)) = 500"
    \<open>body (fst (lambda_handler get_event () store_up w1))
     = ''{"error": "Internal server error", "message": "[<class 'decimal.Rounded'>]", "status": "error"}''\<close>
    unfolding two by (simp_all add: error_response_def eval_json)
  from first second [unfolded w1_def] show ?thesis by ((simp only:); simp?)
qed

text \<open>
  C6, amended. The counter path is not idempotent: when the count read off the store is
  \<open>n - 1\<close> and both \<open>n\<close> and \<open>n + 1\<close> have at most 38 digits, the same request handled
  twice in a row (the store working) is answered with \<^verbatim>\<open>visitor_count\<close> \<open>n\<close> the first
  time and \<open>n + 1\<close> the second, and the two bodies differ.
\<close>

theorem not_idempotent:
  assumes "event ''httpMethod'' \<noteq> Some (PStr ''OPTIONS'')"
    and "get_item_raises e1 = None" and "put_item_raises e1 = None"
    and "get_item_raises e2 = None" and "put_item_raises e2 = None"
    and "current_count e1 (table w ''visitor_count'') = Inr (n - 1)"
    and "\<bar>n\<bar> < 10 ^ 38" and "\<bar>n + 1\<bar> < 10 ^ 38"
    and "\<bar>timestamp (utcnow_2 e1)\<bar> < 10 ^ 38" and "\<bar>timestamp (utcnow_2 e2)\<bar> < 10 ^ 38"
  shows "fst (lambda_handler event ctx e1 w) =
           \<lparr>statusCode = 200,
            headers = [(''Access-Control-Allow-Origin'', ''*''),
                       (''Access-Control-Allow-Headers'', ''Content-Type''),
                       (''Access-Control-Allow-Methods'', ''GET, POST, OPTIONS''),
                       (''Content-Type'', ''application/json'')],
            body = json_dumps [(''visitor_count'', JInt n),
                               (''timestamp'', JStr (isoformat (utcnow_3 e1))),
                               (''status'', JStr ''success'')]\<rparr>
       \<and> fst (lambda_handler event ctx e2 (snd (lambda_handler event ctx e1 w))) =
           \<lparr>statusCode = 200,
            headers = [(''Access-Control-Allow-Origin'', ''*''),
                       (''Access-Control-Allow-Headers'', ''Content-Type''),
                       (''Access-Control-Allow-Methods'', ''GET, POST, OPTIONS''),
                       (''Content-Type'', ''application/json'')],
            body = json_dumps [(''visitor_count'', JInt (n + 1)),
                               (''timestamp'', JStr (isoformat (utcnow_3 e2))),
                               (''status'', JStr ''success'')]\<rparr>
       \<and> body (fst (lambda_handler event ctx e1 w))
           \<noteq> body (fst (lambda_handler event ctx e2 (snd (lambda_handler event ctx e1 w))))"
proof -
  define w1 where "w1 = snd (lambda_handler event ctx e1 w)"
  have one: "lambda_handler event ctx e1 w =
    (success_response n (isoformat (utcnow_3 e1)),
     w\<lparr>calls := calls w @ [Get_item ''visitor_count'',
             Put_item ''visitor_count'' (new_item n (utcnow_1 e1) (utcnow_2 e1))],
       table := (table w)(''visitor_count'' \<mapsto> written n (utcnow_1 e1) (utcnow_2 e1))\<rparr>)"
    using assms(1,2,3,6,7,9) lambda_handler_success [of event e1 w "n - 1" ctx] by simp
  then have "current_count e2 (table w1 ''visitor_count'') = Inr n"
    by (simp add: w1_def current_count_def written_count py_int_def int_of_decimal_of_int)
  with assms(1,4,5,8,10)
  have two: "fst (lambda_handler event ctx e2 w1) = success_response (n + 1) (isoformat (utcnow_3 e2))"
    by (simp add: lambda_handler_success)
  have "body (success_response n (isoformat (utcnow_3 e1)))
      \<noteq> body (success_response (n + 1) (isoformat (utcnow_3 e2)))"
    using success_body_inj [of n "isoformat (utcnow_3 e1)" "n + 1" "isoformat (utcnow_3 e2)"]
    by auto
  with one two [unfolded w1_def] show ?thesis by (simp add: success_response_def)
qed

theorem not_idempotent_witness:
  \<open>get_event ''httpMethod'' \<noteq> Some (PStr ''OPTIONS'')
   \<and> get_item_raises store_up = None \<and> put_item_raises store_up = None
   \<and> current_count store_up (table (holding (N (decimal_of_int 4))) ''visitor_count'') = Inr (5 - 1)
   \<and> \<bar>5\<bar> < (10 :: int) ^ 38 \<and> \<bar>5 + 1\<bar> < (10 :: int) ^ 38
   \<and> \<bar>timestamp (utcnow_2 store_up)\<bar> < 10 ^ 38
   \<and> body (fst (lambda_handler get_event () store_up (holding (N (decimal_of_int 4)))))
       = ''{"visitor_count": 5, "timestamp": "2024-05-01T12:00:00.048210", "status": "success"}''
   \<and> body (fst (lambda_handler get_event () store_up
                (snd (lambda_handler get_event () store_up (holding (N (decimal_of_int 4)))))))
       = ''{"visitor_count": 6, "timestamp": "2024-05-01T12:00:00.048210", "status": "success"}''
   \<and> body (fst (lambda_handler get_event () store_up (holding (N (decimal_of_int 4)))))
       \<noteq> body (fst (lambda_handler get_event () store_up
                (snd (lambda_handler get_event () store_up (holding (N (decimal_of_int 4)))))))\<close>
proof -
  have h: "get_event ''httpMethod'' \<noteq> Some (PStr ''OPTIONS'')"
    "get_item_raises store_up = None" "put_item_raises store_up = None"
    "current_count store_up (table (holding (N (decimal_of_int 4))) ''visitor_count'')
      = Inr (5 - 1)"
    "\<bar>5\<bar> < (10 :: int) ^ 38" "\<bar>5 + 1\<bar> < (10 :: int) ^ 38"
    "\<bar>timestamp (utcnow_2 store_up)\<bar> < 10 ^ 38"
    by (simp_all add: get_event_def sample_clock stored_number_count int_of_decimal_of_int)
  from h
    not_idempotent [of get_event store_up store_up "holding (N (decimal_of_int 4))" 5 "()"]
  have out: "fst (lambda_handler get_event () store_up (holding (N (decimal_of_int 4)))) =
           \<lparr>statusCode = 200,
            headers = [(''Access-Control-Allow-Origin'', ''*''),
                       (''Access-Control-Allow-Headers'', ''Content-Type''),
                       (''Access-Control-Allow-Methods'', ''GET, POST, OPTIONS''),
                       (''Content-Type'', ''application/json'')],
            body = json_dumps [(''visitor_count'', JInt 5),
                               (''timestamp'', JStr (isoformat (utcnow_3 store_up))),
                               (''status'', JStr ''success'')]\<rparr>"
    "fst (lambda_handler get_event () store_up
                (snd (lambda_handler get_event () store_up (holding (N (decimal_of_int 4)))))) =
           \<lparr>statusCode = 200,
            headers = [(''Access-Control-Allow-Origin'', ''*''),
                       (''Access-Control-Allow-Headers'', ''Content-Type''),
                       (''Access-Control-Allow-Methods'', ''GET, POST, OPTIONS''),
                       (''Content-Type'', ''application/json'')],
            body = json_dumps [(''visitor_count'', JInt (5 + 1)),
                               (''timestamp'', JStr (isoformat (utcnow_3 store_up))),
                               (''status'', JStr ''success'')]\<rparr>"
    and differ: "body (fst (lambda_handler get_event () store_up (holding (N (decimal_of_int 4)))))
       \<noteq> body (fst (lambda_handler get_event () store_up
                (snd (lambda_handler get_event () store_up (holding (N (decimal_of_int 4)))))))"
    by blast+
  have shown: \<open>body (fst (lambda_handler get_event () store_up (holding (N (decimal_of_int 4)))))
       = ''{"visitor_count": 5, "timestamp": "2024-05-01T12:00:00.048210", "status": "success"}''\<close>
    \<open>body (fst (lambda_handler get_event () store_up
                (snd (lambda_handler get_event () store_up (holding (N (decimal_of_int 4)))))))
       = ''{"visitor_count": 6, "timestamp": "2024-05-01T12:00:00.048210", "status": "success"}''\<close>
    unfolding out by (simp_all add: sample_clock eval_json)
  from h shown differ show ?thesis by ((simp only:); simp?)
qed

subsection \<open>\<^verbatim>\<open>decimal_default\<close> on a Decimal\<close>

lemma rounds_to_zero_iff:
  assumes "etiny \<le> y"
  shows "rounds_to_zero (Decimal s c y) \<longleftrightarrow> c = 0"
proof -
  define len where "len = int (length (nat_digits c))"
  have "1 \<le> len"
    using nat_digits_nonempty [of c] by (cases "nat_digits c") (simp_all add: len_def)
  with assms have "\<not> len + y - etiny < 0" and "len + y - etiny \<noteq> 0" by linarith+
  then show ?thesis by (simp add: rounds_to_zero_def Let_def len_def [symmetric])
qed

lemma decimal_default_value:
  assumes "\<bar>int_of_decimal d\<bar> < 10 ^ 28" and "- 1000026 \<le> exponent d"
  shows "decimal_default (PDecimal d)
         = Inr (if integral d then PInt (int_of_decimal d) else PFloat (Float_of d))"
proof -
  obtain s c x where d: "d = Decimal s c x" by (cases d)
  define len where "len = length (nat_digits c)"
  have adj: "adjusted d = x + int len - 1" by (simp add: adjusted_def d len_def)
  have upper: "c < 10 ^ len" unfolding len_def by (rule nat_digits_upper)
  have guard: "etiny \<le> x" "etiny \<le> 0" using assms(2) by (simp_all add: d etiny_def)
  note rz = rounds_to_zero_iff guard
  show ?thesis
  proof (cases "c = 0")
    case True
    then show ?thesis
      by (simp add: decimal_default_def decimal_mod_one_def d rz integral_def)
  next
    case pos: False
    then have lower: "10 ^ (len - 1) \<le> c"
      unfolding len_def using nat_digits_lower [of c] by simp
    show ?thesis
    proof (cases "0 \<le> x")
      case nonneg: True
      then have val: "\<bar>int_of_decimal d\<bar> = int (c * 10 ^ nat x)"
        by (simp add: int_of_decimal_def d Let_def)
      with assms(1) have small: "c * 10 ^ nat x < 10 ^ 28"
        by (metis of_nat_less_iff of_nat_numeral of_nat_power)
      have "adjusted d \<le> 28"
      proof (rule ccontr)
        assume "\<not> adjusted d \<le> 28"
        with adj have "29 \<le> (len - 1) + nat x" using nonneg by linarith
        then have "(10::nat) ^ 29 \<le> 10 ^ ((len - 1) + nat x)"
          by (rule pow10_mono)
        also have "\<dots> = 10 ^ (len - 1) * 10 ^ nat x" by (simp add: power_add)
        also have "\<dots> \<le> c * 10 ^ nat x" using lower by simp
        finally show False using small by simp
      qed
      moreover have "\<not> adjusted d \<le> - 2"
        using adj nonneg by simp
      ultimately show ?thesis
        using pos nonneg small
        by (simp add: decimal_default_def decimal_mod_one_def d rz integral_def Let_def
            int_of_decimal_def)
    next
      case neg: False
      define k where "k = nat (- x)"
      from neg have x: "x = - int k" and kpos: "0 < k" by (simp_all add: k_def)
      have quot: "int c div 10 ^ nat (- x) = int (c div 10 ^ k)"
        by (simp add: k_def zdiv_int)
      have val: "\<bar>int_of_decimal d\<bar> = int (c div 10 ^ k)"
        using neg by (simp add: int_of_decimal_def d Let_def quot)
      with assms(1) have small: "c div 10 ^ k < 10 ^ 28"
        by (metis of_nat_less_iff of_nat_numeral of_nat_power)
      show ?thesis
      proof (cases "adjusted d \<le> - 2")
        case True
        with adj x have "len \<le> k" by linarith
        then have "(10::nat) ^ len \<le> 10 ^ k" by (rule pow10_mono)
        with upper have "c < 10 ^ k" by (rule less_le_trans)
        then have "c mod 10 ^ k = c" by simp
        with pos have "\<not> integral d" by (simp add: integral_def d neg k_def)
        with True pos show ?thesis
          by (simp add: decimal_default_def decimal_mod_one_def d rz)
      next
        case False
        have "adjusted d \<le> 28"
        proof (rule ccontr)
          assume "\<not> adjusted d \<le> 28"
          with adj x have "k + 29 \<le> len - 1" by linarith
          then have "(10::nat) ^ (k + 29) \<le> 10 ^ (len - 1)" by (rule pow10_mono)
          from this lower have "(10::nat) ^ (k + 29) \<le> c" by (rule order_trans)
          then have "(10::nat) ^ (k + 29) div 10 ^ k \<le> c div 10 ^ k" by (rule div_le_mono)
          moreover have "(10::nat) ^ (k + 29) div 10 ^ k = 10 ^ 29"
            by (simp only: power_add) simp
          ultimately have "(10::nat) ^ 29 \<le> c div 10 ^ k" by (simp only:)
          with small show False by simp
        qed
        with False pos neg small show ?thesis
          by (simp add: decimal_default_def decimal_mod_one_def d rz integral_def Let_def k_def)
      qed
    qed
  qed
qed

subsection \<open>A stored Decimal\<close>

lemma stored_decimal_response:
  assumes "event ''httpMethod'' \<noteq> Some (PStr ''OPTIONS'')"
    and "get_item_raises e = None" and "put_item_raises e = None"
    and "table w ''visitor_count'' = Some it" and "it ''count'' = Some (N d)"
    and "\<bar>int_of_decimal d + 1\<bar> < 10 ^ 38" and "\<bar>timestamp (utcnow_2 e)\<bar> < 10 ^ 38"
  shows "lambda_handler event ctx e w =
    (success_response (int_of_decimal d + 1) (isoformat (utcnow_3 e)),
     w\<lparr>calls := calls w @ [Get_item ''visitor_count'',
             Put_item ''visitor_count'' (new_item (int_of_decimal d + 1) (utcnow_1 e) (utcnow_2 e))],
       table := (table w)(''visitor_count'' \<mapsto>
                   written (int_of_decimal d + 1) (utcnow_1 e) (utcnow_2 e))\<rparr>)"
proof -
  have "current_count e (table w ''visitor_count'') = Inr (int_of_decimal d)"
    using assms(4,5) by (simp add: current_count_def py_int_def)
  with assms(1-3,6,7) show ?thesis
    by (simp add: lambda_handler_success)
qed

text \<open>
  A stored count of 5.5 is answered with the integer 6: the response holds no 5.5.
\<close>

theorem fractional_count_counterexample:
  \<open>body (fst (lambda_handler get_event () store_up (holding (N (Decimal False 55 (- 1))))))
     = ''{"visitor_count": 6, "timestamp": "2024-05-01T12:00:00.048210", "status": "success"}''
   \<and> body (fst (lambda_handler get_event () store_up (holding (N (Decimal False 55 (- 1))))))
     \<noteq> ''{"visitor_count": 5.5, "timestamp": "2024-05-01T12:00:00.048210", "status": "success"}''
   \<and> body (fst (lambda_handler get_event () store_up (holding (N (Decimal False 55 (- 1))))))
     \<noteq> ''{"visitor_count": 6.5, "timestamp": "2024-05-01T12:00:00.048210", "status": "success"}''\<close>
proof -
  have val: "int_of_decimal (Decimal False 55 (- 1)) = 5"
    by (simp add: int_of_decimal_def)
  have "lambda_handler get_event () store_up (holding (N (Decimal False 55 (- 1)))) =
    (success_response (int_of_decimal (Decimal False 55 (- 1)) + 1) (isoformat (utcnow_3 store_up)),
     (holding (N (Decimal False 55 (- 1))))
      \<lparr>calls := calls (holding (N (Decimal False 55 (- 1)))) @ [Get_item ''visitor_count'',
             Put_item ''visitor_count'' (new_item (int_of_decimal (Decimal False 55 (- 1)) + 1)
               (utcnow_1 store_up) (utcnow_2 store_up))],
       table := (table (holding (N (Decimal False 55 (- 1)))))(''visitor_count'' \<mapsto>
             written (int_of_decimal (Decimal False 55 (- 1)) + 1)
               (utcnow_1 store_up) (utcnow_2 store_up))\<rparr>)"
    by (rule stored_decimal_response
          [where it = "[''id'' \<mapsto> S ''visitor_count'', ''count'' \<mapsto> N (Decimal False 55 (- 1))]"])
       (simp_all add: get_event_def sample_clock holding_def val)
  then show ?thesis
    by (simp add: val success_response_def sample_clock eval_json)
qed

text \<open>
  C4, amended. When the stored count is a Decimal \<open>d\<close>, a request that is not a preflight
  (the store working) converts it with \<^verbatim>\<open>int\<close>, which truncates towards zero, before
  adding one: provided \<open>int(d) + 1\<close> has at most 38 digits, the response carries that
  integer as \<^verbatim>\<open>visitor_count\<close>, for whole and fractional \<open>d\<close> alike (5.0 and 5.5 both
  give 6, and -5.5 gives -4), and it is the count written back. The hook
  \<^verbatim>\<open>decimal_default\<close> maps a Decimal of magnitude below \<open>10^28\<close> (and exponent within
  the default context) to an \<^verbatim>\<open>int\<close> when it is whole and to a \<^verbatim>\<open>float\<close> otherwise,
  but the count never reaches it.
\<close>

theorem decimal_count_is_truncated:
  assumes "event ''httpMethod'' \<noteq> Some (PStr ''OPTIONS'')"
    and "get_item_raises e = None" and "put_item_raises e = None"
    and "table w ''visitor_count'' = Some it" and "it ''count'' = Some (N d)"
    and "\<bar>int_of_decimal d + 1\<bar> < 10 ^ 38" and "\<bar>timestamp (utcnow_2 e)\<bar> < 10 ^ 38"
  shows "statusCode (fst (lambda_handler event ctx e w)) = 200
       \<and> body (fst (lambda_handler event ctx e w))
           = json_dumps [(''visitor_count'', JInt (int_of_decimal d + 1)),
                         (''timestamp'', JStr (isoformat (utcnow_3 e))),
                         (''status'', JStr ''success'')]
       \<and> table (snd (lambda_handler event ctx e w)) ''visitor_count'' =
           Some [''id'' \<mapsto> S ''visitor_count'',
                 ''count'' \<mapsto> N (decimal_of_int (int_of_decimal d + 1)),
                 ''last_updated'' \<mapsto> S (isoformat (utcnow_1 e)),
                 ''timestamp'' \<mapsto> N (decimal_of_int (timestamp (utcnow_2 e)))]
       \<and> (\<bar>int_of_decimal d\<bar> < 10 ^ 28 \<and> - 1000026 \<le> exponent d \<longrightarrow>
            decimal_default (PDecimal d)
              = Inr (if integral d then PInt (int_of_decimal d) else PFloat (Float_of d)))"
  using assms stored_decimal_response [of event e w it d ctx]
  by (simp add: success_response_def written_def decimal_default_value)

theorem decimal_count_is_truncated_witness:
  \<open>get_event ''httpMethod'' \<noteq> Some (PStr ''OPTIONS'')
   \<and> get_item_raises store_up = None \<and> put_item_raises store_up = None
   \<and> table (holding (N (Decimal False 55 (- 1)))) ''visitor_count''
        = Some [''id'' \<mapsto> S ''visitor_count'', ''count'' \<mapsto> N (Decimal False 55 (- 1))]
   \<and> \<bar>int_of_decimal (Decimal False 55 (- 1)) + 1\<bar> < 10 ^ 38
   \<and> \<bar>timestamp (utcnow_2 store_up)\<bar> < 10 ^ 38
   \<and> \<bar>int_of_decimal (Decimal False 55 (- 1))\<bar> < 10 ^ 28
   \<and> - 1000026 \<le> exponent (Decimal False 55 (- 1))
   \<and> \<not> integral (Decimal False 55 (- 1))
   \<and> body (fst (lambda_handler get_event () store_up (holding (N (Decimal False 55 (- 1))))))
        = json_dumps [(''visitor_count'', JInt 6),
                      (''timestamp'', JStr ''2024-05-01T12:00:00.048210''),
                      (''status'', JStr ''success'')]
   \<and> table (snd (lambda_handler get_event () store_up (holding (N (Decimal False 55 (- 1))))))
         ''visitor_count''
        = Some [''id'' \<mapsto> S ''visitor_count'', ''count'' \<mapsto> N (decimal_of_int 6),
             ''last_updated'' \<mapsto> S ''2024-05-01T12:00:00.000123'',
             ''timestamp'' \<mapsto> N (decimal_of_int 1714564800)]
   \<and> decimal_default (PDecimal (Decimal False 55 (- 1)))
        = Inr (PFloat (Float_of (Decimal False 55 (- 1))))
   \<and> integral (Decimal False 50 (- 1))
   \<and> body (fst (lambda_handler get_event () store_up (holding (N (Decimal False 50 (- 1))))))
        = json_dumps [(''visitor_count'', JInt 6),
                      (''timestamp'', JStr ''2024-05-01T12:00:00.048210''),
                      (''status'', JStr ''success'')]
   \<and> decimal_default (PDecimal (Decimal False 50 (- 1))) = Inr (PInt 5)
   \<and> int_of_decimal (Decimal True 55 (- 1)) = - 5
   \<and> body (fst (lambda_handler get_event () store_up (holding (N (Decimal True 55 (- 1))))))
        = json_dumps [(''visitor_count'', JInt (- 4)),
                      (''timestamp'', JStr ''2024-05-01T12:00:00.048210''),
                      (''status'', JStr ''success'')]
   \<and> decimal_default (PDecimal (Decimal True 55 (- 1)))
        = Inr (PFloat (Float_of (Decimal True 55 (- 1))))\<close>
proof -
  have h: "get_event ''httpMethod'' \<noteq> Some (PStr ''OPTIONS'')"
    "get_item_raises store_up = None" "put_item_raises store_up = None"
    "\<bar>timestamp (utcnow_2 store_up)\<bar> < 10 ^ 38"
    by (simp_all add: get_event_def sample_clock)
  have tab: "table (holding (N x)) ''visitor_count''
        = Some [''id'' \<mapsto> S ''visitor_count'', ''count'' \<mapsto> N x]" for x
    by (simp add: holding_def)
  have vals: "int_of_decimal (Decimal False 55 (- 1)) = 5" "\<not> integral (Decimal False 55 (- 1))"
    "int_of_decimal (Decimal False 50 (- 1)) = 5" "integral (Decimal False 50 (- 1))"
    "int_of_decimal (Decimal True 55 (- 1)) = - 5" "\<not> integral (Decimal True 55 (- 1))"
    by (simp_all add: int_of_decimal_def integral_def)
  have frac_bounds: "\<bar>int_of_decimal (Decimal False 55 (- 1)) + 1\<bar> < 10 ^ 38"
    "\<bar>int_of_decimal (Decimal False 55 (- 1))\<bar> < 10 ^ 28"
    "- 1000026 \<le> exponent (Decimal False 55 (- 1))"
    by (simp_all add: vals)
  have whole_bounds: "\<bar>int_of_decimal (Decimal False 50 (- 1)) + 1\<bar> < 10 ^ 38"
    "\<bar>int_of_decimal (Decimal False 50 (- 1))\<bar> < 10 ^ 28"
    "- 1000026 \<le> exponent (Decimal False 50 (- 1))"
    by (simp_all add: vals)
  have below_bounds: "\<bar>int_of_decimal (Decimal True 55 (- 1)) + 1\<bar> < 10 ^ 38"
    "\<bar>int_of_decimal (Decimal True 55 (- 1))\<bar> < 10 ^ 28"
    "- 1000026 \<le> exponent (Decimal True 55 (- 1))"
    by (simp_all add: vals)
  from h tab [of "Decimal False 55 (- 1)"] frac_bounds
    decimal_count_is_truncated [of get_event store_up "holding (N (Decimal False 55 (- 1)))"
      "[''id'' \<mapsto> S ''visitor_count'', ''count'' \<mapsto> N (Decimal False 55 (- 1))]"
      "Decimal False 55 (- 1)" "()"]
  have frac: "body (fst (lambda_handler get_event () store_up (holding (N (Decimal False 55 (- 1))))))
        = json_dumps [(''visitor_count'', JInt 6),
                      (''timestamp'', JStr ''2024-05-01T12:00:00.048210''),
                      (''status'', JStr ''success'')]"
    "table (snd (lambda_handler get_event () store_up (holding (N (Decimal False 55 (- 1)))))) ''visitor_count''
        = Some [''id'' \<mapsto> S ''visitor_count'', ''count'' \<mapsto> N (decimal_of_int 6),
             ''last_updated'' \<mapsto> S ''2024-05-01T12:00:00.000123'',
             ''timestamp'' \<mapsto> N (decimal_of_int 1714564800)]"
    "decimal_default (PDecimal (Decimal False 55 (- 1))) = Inr (if integral (Decimal False 55 (- 1))
        then PInt (int_of_decimal (Decimal False 55 (- 1))) else PFloat (Float_of (Decimal False 55 (- 1))))"
    by (simp_all add: vals sample_clock)
  from h tab [of "Decimal False 50 (- 1)"] whole_bounds
    decimal_count_is_truncated [of get_event store_up "holding (N (Decimal False 50 (- 1)))"
      "[''id'' \<mapsto> S ''visitor_count'', ''count'' \<mapsto> N (Decimal False 50 (- 1))]"
      "Decimal False 50 (- 1)" "()"]
  have whole: "body (fst (lambda_handler get_event () store_up (holding (N (Decimal False 50 (- 1))))))
        = json_dumps [(''visitor_count'', JInt 6),
                      (''timestamp'', JStr ''2024-05-01T12:00:00.048210''),
                      (''status'', JStr ''success'')]"
    "table (snd (lambda_handler get_event () store_up (holding (N (Decimal False 50 (- 1)))))) ''visitor_count''
        = Some [''id'' \<mapsto> S ''visitor_count'', ''count'' \<mapsto> N (decimal_of_int 6),
             ''last_updated'' \<mapsto> S ''2024-05-01T12:00:00.000123'',
             ''timestamp'' \<mapsto> N (decimal_of_int 1714564800)]"
    "decimal_default (PDecimal (Decimal False 50 (- 1))) = Inr (if integral (Decimal False 50 (- 1))
        then PInt (int_of_decimal (Decimal False 50 (- 1))) else PFloat (Float_of (Decimal False 50 (- 1))))"
    by (simp_all add: vals sample_clock)
  from h tab [of "Decimal True 55 (- 1)"] below_bounds
    decimal_count_is_truncated [of get_event store_up "holding (N (Decimal True 55 (- 1)))"
      "[''id'' \<mapsto> S ''visitor_count'', ''count'' \<mapsto> N (Decimal True 55 (- 1))]"
      "Decimal True 55 (- 1)" "()"]
  have below: "body (fst (lambda_handler get_event () store_up (holding (N (Decimal True 55 (- 1))))))
        = json_dumps [(''visitor_count'', JInt (- 4)),
                      (''timestamp'', JStr ''2024-05-01T12:00:00.048210''),
                      (''status'', JStr ''success'')]"
    "table (snd (lambda_handler get_event () store_up (holding (N (Decimal True 55 (- 1)))))) ''visitor_count''
        = Some [''id'' \<mapsto> S ''visitor_count'', ''count'' \<mapsto> N (decimal_of_int (- 4)),
             ''last_updated'' \<mapsto> S ''2024-05-01T12:00:00.000123'',
             ''timestamp'' \<mapsto> N (decimal_of_int 1714564800)]"
    "decimal_default (PDecimal (Decimal True 55 (- 1))) = Inr (if integral (Decimal True 55 (- 1))
        then PInt (int_of_decimal (Decimal True 55 (- 1))) else PFloat (Float_of (Decimal True 55 (- 1))))"
    by (simp_all add: vals sample_clock)
  from h tab [of "Decimal False 55 (- 1)"] vals frac_bounds frac whole below show ?thesis
    by ((simp only:); simp?)
qed

end
